theory Spec2Isabelle
  imports Main "HOL-Library.Log_Nat"
begin

section \<open>Python values used by the campaign pipeline\<close>

subsection \<open>Floats\<close>

text \<open>
  A Python \<^verbatim>\<open>float\<close> is an IEEE 754 binary64 number. \<open>Finite m e\<close> stands for
  \<open>m * 2 ^ e\<close> in the canonical form of the format: \<open>\<bar>m\<bar> < 2 ^ 53\<close>,
  \<open>- 1074 \<le> e \<le> 971\<close>, and \<open>2 ^ 52 \<le> \<bar>m\<bar>\<close> unless \<open>e = - 1074\<close>
  (subnormal numbers and zero). The two zeros are identified: none of the operators used
  by the services (\<^verbatim>\<open>*\<close>, \<^verbatim>\<open>/\<close>, comparisons, truth value) tells them apart.
\<close>

datatype pyfloat = Finite int int | PosInf | NegInf | NaN

text \<open>
  \<open>round_ratio p q\<close> is the binary64 number nearest to \<open>p / q\<close> (for \<open>0 < q\<close>), ties
  going to the even significand, and an infinity beyond the largest finite number. It is
  what a decimal literal, an \<^verbatim>\<open>int\<close> conversion and each arithmetic operation yield.
  Its parts: \<open>ilog2_ratio a q\<close> is the integer part of the binary logarithm of \<open>a / q\<close>;
  \<open>nearest_even n d\<close> is the integer nearest to \<open>n / d\<close>; \<open>pack\<close> brings the significand
  \<open>2 ^ 53\<close>, which rounding up can reach, back into range and checks the exponent.
\<close>

definition ilog2_ratio :: "int \<Rightarrow> int \<Rightarrow> int" where
  "ilog2_ratio a q =
     (let k = bitlen a - bitlen q
      in if (if 0 \<le> k then q * 2 ^ nat k \<le> a else q \<le> a * 2 ^ nat (- k)) then k else k - 1)"

definition nearest_even :: "int \<Rightarrow> int \<Rightarrow> int" where
  "nearest_even n d =
     (let m0 = n div d; r = n mod d
      in if 2 * r < d then m0 else if d < 2 * r then m0 + 1
         else if even m0 then m0 else m0 + 1)"

definition pack :: "bool \<Rightarrow> int \<Rightarrow> int \<Rightarrow> pyfloat" where
  "pack positive m e =
     (let m' = (if m = 2 ^ 53 then 2 ^ 52 else m);
          e' = (if m = 2 ^ 53 then e + 1 else e)
      in if 971 < e' then (if positive then PosInf else NegInf)
         else Finite (if positive then m' else - m') e')"

definition round_ratio :: "int \<Rightarrow> int \<Rightarrow> pyfloat" where
  "round_ratio p q =
     (if p = 0 then Finite 0 (- 1074)
      else
        let a = \<bar>p\<bar>;
            e = max (ilog2_ratio a q - 52) (- 1074);
            m = (if e < 0 then nearest_even (a * 2 ^ nat (- e)) q
                 else nearest_even a (q * 2 ^ nat e))
        in pack (0 < p) m e)"

definition round_dyadic :: "int \<Rightarrow> int \<Rightarrow> pyfloat" where
  "round_dyadic m e =
     (if 0 \<le> e then round_ratio (m * 2 ^ nat e) 1 else round_ratio m (2 ^ nat (- e)))"

definition fzero :: pyfloat where
  "fzero = Finite 0 (- 1074)"

definition is_zero :: "pyfloat \<Rightarrow> bool" where
  "is_zero x = (case x of Finite m e \<Rightarrow> m = 0 | _ \<Rightarrow> False)"

text \<open>\<^verbatim>\<open>a * b\<close> on floats: the exact product, rounded; never an exception.\<close>

fun fmul :: "pyfloat \<Rightarrow> pyfloat \<Rightarrow> pyfloat" where
  "fmul (Finite m1 e1) (Finite m2 e2) = round_dyadic (m1 * m2) (e1 + e2)"
| "fmul NaN _ = NaN"
| "fmul _ NaN = NaN"
| "fmul (Finite m e) PosInf = (if m = 0 then NaN else if 0 < m then PosInf else NegInf)"
| "fmul (Finite m e) NegInf = (if m = 0 then NaN else if 0 < m then NegInf else PosInf)"
| "fmul PosInf (Finite m e) = (if m = 0 then NaN else if 0 < m then PosInf else NegInf)"
| "fmul NegInf (Finite m e) = (if m = 0 then NaN else if 0 < m then NegInf else PosInf)"
| "fmul PosInf PosInf = PosInf"
| "fmul PosInf NegInf = NegInf"
| "fmul NegInf PosInf = NegInf"
| "fmul NegInf NegInf = PosInf"

text \<open>\<^verbatim>\<open>a < b\<close> and \<^verbatim>\<open>a <= b\<close> on floats; every comparison with NaN is false.\<close>

fun flt :: "pyfloat \<Rightarrow> pyfloat \<Rightarrow> bool" where
  "flt (Finite m1 e1) (Finite m2 e2) =
     (let e = min e1 e2 in m1 * 2 ^ nat (e1 - e) < m2 * 2 ^ nat (e2 - e))"
| "flt NaN _ = False"
| "flt _ NaN = False"
| "flt PosInf _ = False"
| "flt _ PosInf = True"
| "flt NegInf NegInf = False"
| "flt NegInf _ = True"
| "flt _ NegInf = False"

definition fle :: "pyfloat \<Rightarrow> pyfloat \<Rightarrow> bool" where
  "fle a b = (a \<noteq> NaN \<and> b \<noteq> NaN \<and> \<not> flt b a)"

subsection \<open>Exceptions and dynamically typed values\<close>

datatype py_exception =
    ValueError
  | TypeError
  | OverflowError
  | ZeroDivisionError
  | ValidationError
  | OtherException string

text \<open>
  The \<^verbatim>\<open>data\<close> of an Akeneo value is typed \<^verbatim>\<open>Any\<close>: it holds whatever the decoded
  JSON response held.
\<close>

datatype pyval =
    PNone
  | PBool bool
  | PInt int
  | PFloat pyfloat
  | PStr string
  | PList "pyval list"
  | PDict "(string \<times> pyval) list"

text \<open>The truth value Python gives an object in \<^verbatim>\<open>if not x\<close>.\<close>

fun truthy :: "pyval \<Rightarrow> bool" where
  "truthy PNone = False"
| "truthy (PBool b) = b"
| "truthy (PInt i) = (i \<noteq> 0)"
| "truthy (PFloat f) = (\<not> is_zero f)"
| "truthy (PStr s) = (s \<noteq> [])"
| "truthy (PList xs) = (xs \<noteq> [])"
| "truthy (PDict kvs) = (kvs \<noteq> [])"

text \<open>
  \<^verbatim>\<open>float(value)\<close>. Parsing a string is the interpreter's business: \<open>parse\<close> is the
  built-in parser, \<open>None\<close> where it raises \<^verbatim>\<open>ValueError\<close>. An \<^verbatim>\<open>int\<close> beyond the
  range of the format raises \<^verbatim>\<open>OverflowError\<close>.
\<close>

fun py_float :: "(string \<Rightarrow> pyfloat option) \<Rightarrow> pyval \<Rightarrow> py_exception + pyfloat" where
  "py_float parse (PFloat f) = Inr f"
| "py_float parse (PInt i) =
     (case round_ratio i 1 of Finite m e \<Rightarrow> Inr (Finite m e) | _ \<Rightarrow> Inl OverflowError)"
| "py_float parse (PBool b) = Inr (if b then round_ratio 1 1 else fzero)"
| "py_float parse (PStr s) = (case parse s of Some f \<Rightarrow> Inr f | None \<Rightarrow> Inl ValueError)"
| "py_float parse _ = Inl TypeError"

text \<open>
  \<^verbatim>\<open>a / b\<close> on floats raises \<^verbatim>\<open>ZeroDivisionError\<close> when \<open>b\<close> is zero, whatever \<open>a\<close> is.
\<close>

fun fdiv :: "pyfloat \<Rightarrow> pyfloat \<Rightarrow> py_exception + pyfloat" where
  "fdiv (Finite m1 e1) (Finite m2 e2) =
     (if m2 = 0 then Inl ZeroDivisionError
      else let p = (if 0 < m2 then m1 else - m1); q = \<bar>m2\<bar>
           in Inr (if e2 \<le> e1 then round_ratio (p * 2 ^ nat (e1 - e2)) q
                   else round_ratio p (q * 2 ^ nat (e2 - e1))))"
| "fdiv NaN (Finite m e) = (if m = 0 then Inl ZeroDivisionError else Inr NaN)"
| "fdiv PosInf (Finite m e) =
     (if m = 0 then Inl ZeroDivisionError else Inr (if 0 < m then PosInf else NegInf))"
| "fdiv NegInf (Finite m e) =
     (if m = 0 then Inl ZeroDivisionError else Inr (if 0 < m then NegInf else PosInf))"
| "fdiv (Finite m e) PosInf = Inr fzero"
| "fdiv (Finite m e) NegInf = Inr fzero"
| "fdiv PosInf PosInf = Inr NaN"
| "fdiv PosInf NegInf = Inr NaN"
| "fdiv NegInf PosInf = Inr NaN"
| "fdiv NegInf NegInf = Inr NaN"
| "fdiv NaN PosInf = Inr NaN"
| "fdiv NaN NegInf = Inr NaN"
| "fdiv _ NaN = Inr NaN"

section \<open>Akeneo models (app/models/akeneo.py)\<close>

record LinkedData =
  attribute :: "string option"
  code :: "string option"
  labels :: "(string \<times> string) list option"

record Value =
  locale_field :: "string option"
  scope :: "string option"
  data :: pyval
  linked_data :: "LinkedData option"
  reference_data_name :: "string option"
  attribute_type :: "string option"
  assets :: "(string \<times> pyval) list list option"

record ProductDetails =
  id_field :: string
  family :: string
  parent :: "string option"
  values_field :: "string \<rightharpoonup> Value list"

section \<open>The PIM client (app/services/akeneo\_service.py)\<close>

text \<open>
  \<^verbatim>\<open>AkeneoService.get_product\<close> talks to the remote service: it authenticates if no
  token is cached, sends the request and decodes the answer, or raises. Its outcome is
  supplied by the environment: \<open>get_product product_id w\<close> is the outcome of a call made
  in the state \<open>w\<close> of the world (the token cache and the remote service), with the state
  the call leaves behind.
\<close>

type_synonym 'w get_product_fn = "string \<Rightarrow> 'w \<Rightarrow> (py_exception + ProductDetails) \<times> 'w"

text \<open>The body of the \<^verbatim>\<open>try\<close> block of \<^verbatim>\<open>get_product_sku_mapping\<close>.\<close>

definition sku_mapping_body :: "'w get_product_fn \<Rightarrow> string \<Rightarrow> 'w \<Rightarrow> (py_exception + pyval) \<times> 'w" where
  "sku_mapping_body get_product product_id w =
     (case get_product product_id w of
        (Inl exn, w') \<Rightarrow> (Inl exn, w')
      | (Inr product, w') \<Rightarrow>
          (case values_field product ''sku'' of
             Some (v # vs) \<Rightarrow> (Inr (data v), w')
           | _ \<Rightarrow> (Inr (PStr product_id), w')))"

text \<open>\<^verbatim>\<open>except Exception\<close>: log and return \<^verbatim>\<open>None\<close>.\<close>

definition get_product_sku_mapping :: "'w get_product_fn \<Rightarrow> string \<Rightarrow> 'w \<Rightarrow> (py_exception + pyval) \<times> 'w" where
  "get_product_sku_mapping get_product product_id w =
     (case sku_mapping_body get_product product_id w of
        (Inl exn, w') \<Rightarrow> (Inr PNone, w')
      | (Inr v, w') \<Rightarrow> (Inr v, w'))"

definition mrp_attributes :: "string list" where
  "mrp_attributes = [''mrp'', ''MRP'', ''maximum_retail_price'', ''list_price'']"

text \<open>
  The \<^verbatim>\<open>for attr in mrp_attributes\<close> loop followed by \<^verbatim>\<open>return None\<close>: the first
  attribute whose value list is non-empty and starts with non-null data ends the loop,
  with \<^verbatim>\<open>float(value)\<close> or the exception it raises.
\<close>

fun probe_mrp :: "(string \<Rightarrow> pyfloat option) \<Rightarrow> ProductDetails \<Rightarrow> string list \<Rightarrow> py_exception + pyfloat option" where
  "probe_mrp parse product [] = Inr None"
| "probe_mrp parse product (attr # attrs) =
     (case values_field product attr of
        Some (v # vs) \<Rightarrow>
          (if data v \<noteq> PNone
           then (case py_float parse (data v) of Inl exn \<Rightarrow> Inl exn | Inr f \<Rightarrow> Inr (Some f))
           else probe_mrp parse product attrs)
      | _ \<Rightarrow> probe_mrp parse product attrs)"

definition mrp_body :: "'w get_product_fn \<Rightarrow> (string \<Rightarrow> pyfloat option) \<Rightarrow> string \<Rightarrow> 'w \<Rightarrow> (py_exception + pyfloat option) \<times> 'w" where
  "mrp_body get_product parse product_id w =
     (case get_product product_id w of
        (Inl exn, w') \<Rightarrow> (Inl exn, w')
      | (Inr product, w') \<Rightarrow> (probe_mrp parse product mrp_attributes, w'))"

definition get_product_mrp :: "'w get_product_fn \<Rightarrow> (string \<Rightarrow> pyfloat option) \<Rightarrow> string \<Rightarrow> 'w \<Rightarrow> (py_exception + pyfloat option) \<times> 'w" where
  "get_product_mrp get_product parse product_id w =
     (case mrp_body get_product parse product_id w of
        (Inl exn, w') \<Rightarrow> (Inr None, w')
      | (Inr r, w') \<Rightarrow> (Inr r, w'))"

section \<open>Dates (datetime.datetime)\<close>

record datetime =
  year :: nat
  month :: nat
  day :: nat
  hour :: nat
  minute :: nat
  second :: nat
  microsecond :: nat

fun lex_less :: "nat list \<Rightarrow> nat list \<Rightarrow> bool" where
  "lex_less (x # xs) (y # ys) = (x < y \<or> (x = y \<and> lex_less xs ys))"
| "lex_less _ _ = False"

definition dt_fields :: "datetime \<Rightarrow> nat list" where
  "dt_fields t = [year t, month t, day t, hour t, minute t, second t, microsecond t]"

definition dt_less :: "datetime \<Rightarrow> datetime \<Rightarrow> bool" where
  "dt_less a b = lex_less (dt_fields a) (dt_fields b)"

definition dt_le :: "datetime \<Rightarrow> datetime \<Rightarrow> bool" where
  "dt_le a b = (\<not> dt_less b a)"

definition is_leap :: "nat \<Rightarrow> bool" where
  "is_leap y = (y mod 4 = 0 \<and> (y mod 100 \<noteq> 0 \<or> y mod 400 = 0))"

definition days_in_month :: "nat \<Rightarrow> nat \<Rightarrow> nat" where
  "days_in_month y m =
     (if m = 2 then (if is_leap y then 29 else 28)
      else if m = 4 \<or> m = 6 \<or> m = 9 \<or> m = 11 then 30 else 31)"

text \<open>
  \<^verbatim>\<open>datetime.strptime(s, "%d/%m/%Y")\<close>. The library turns the format into the regular
  expression
  \<^verbatim>\<open>(3[0-1]|[1-2]\d|0[1-9]|[1-9]| [1-9])/(1[0-2]|0[1-9]|[1-9])/(\d\d\d\d)\<close>,
  which must match from the first character to the last; it then builds the date, which
  fails for the year 0 and for a day the month does not have. Every failure is a
  \<^verbatim>\<open>ValueError\<close>. A \<open>char\<close> is read as a code point below 256, where the only
  decimal digits are \<open>0\<close> to \<open>9\<close>.
\<close>

definition is_digit :: "char \<Rightarrow> bool" where
  "is_digit c = (c \<in> set ''0123456789'')"

definition digit_value :: "char \<Rightarrow> nat" where
  "digit_value c = of_char c - 48"

fun match_d :: "string \<Rightarrow> nat option" where
  "match_d [a, b] =
     (if a = CHR ''3'' \<and> (b = CHR ''0'' \<or> b = CHR ''1'') then Some (30 + digit_value b)
      else if (a = CHR ''1'' \<or> a = CHR ''2'') \<and> is_digit b
        then Some (10 * digit_value a + digit_value b)
      else if (a = CHR ''0'' \<or> a = CHR '' '') \<and> is_digit b \<and> b \<noteq> CHR ''0''
        then Some (digit_value b)
      else None)"
| "match_d [a] = (if is_digit a \<and> a \<noteq> CHR ''0'' then Some (digit_value a) else None)"
| "match_d _ = None"

fun match_m :: "string \<Rightarrow> nat option" where
  "match_m [a, b] =
     (if a = CHR ''1'' \<and> (b = CHR ''0'' \<or> b = CHR ''1'' \<or> b = CHR ''2'')
        then Some (10 + digit_value b)
      else if a = CHR ''0'' \<and> is_digit b \<and> b \<noteq> CHR ''0'' then Some (digit_value b)
      else None)"
| "match_m [a] = (if is_digit a \<and> a \<noteq> CHR ''0'' then Some (digit_value a) else None)"
| "match_m _ = None"

fun match_Y :: "string \<Rightarrow> nat option" where
  "match_Y [a, b, c, d] =
     (if is_digit a \<and> is_digit b \<and> is_digit c \<and> is_digit d
      then Some (1000 * digit_value a + 100 * digit_value b + 10 * digit_value c + digit_value d)
      else None)"
| "match_Y _ = None"

definition not_slash :: "char \<Rightarrow> bool" where
  "not_slash c = (c \<noteq> CHR ''/'')"

definition strptime :: "string \<Rightarrow> py_exception + datetime" where
  "strptime s =
     (case dropWhile not_slash s of
        [] \<Rightarrow> Inl ValueError
      | c1 # s1 \<Rightarrow>
          (case dropWhile not_slash s1 of
             [] \<Rightarrow> Inl ValueError
           | c2 # s2 \<Rightarrow>
               (case (match_d (takeWhile not_slash s), match_m (takeWhile not_slash s1), match_Y s2) of
                  (Some d, Some m, Some y) \<Rightarrow>
                    (if 1 \<le> y \<and> d \<le> days_in_month y m
                     then Inr \<lparr>year = y, month = m, day = d, hour = 0, minute = 0,
                               second = 0, microsecond = 0\<rparr>
                     else Inl ValueError)
                | _ \<Rightarrow> Inl ValueError)))"

section \<open>Campaign models (app/models/campaign.py) and settings (app/core/config.py)\<close>

record RawCampaignData =
  issue_type :: string
  live_date :: string
  segment :: string
  slot :: "int option"
  end_date :: string
  request_type :: string
  monetary_type :: "string option"
  cpc :: "pyfloat option"
  product_id :: string
  akeneo_product_name :: "string option"
  akeneo_brand_name :: "string option"
  selling_price :: pyfloat
  projected_inventory :: "int option"
  brand :: "string option"
  preferred_landing_sku_id :: "string option"
  property :: "string option"
  funnel :: "string option"
  mv :: "string option"
  top_bet_date :: "string option"
  campaign_name :: "string option"
  top_bet :: "string option"
  article_type :: "string option"
  akeneo_family :: "string option"
  MRP :: "pyfloat option"
  segment_in :: "string option"
  remarks :: "string option"
  price_remarks :: "string option"
  user_email :: "string option"
  impressions :: "int option"
  tacos :: "pyfloat option"
  index :: "int option"
  available_inventory :: "int option"

record FalconFormattedData =
  sku_id :: string
  product_id :: string
  MRP :: pyfloat
  MOP :: pyfloat
  selling_price :: pyfloat
  mop_cost :: pyfloat
  selling_price_cost :: pyfloat
  coins :: int

record CampaignFilter =
  campaign_types :: "string list option"
  start_date :: "datetime option"
  end_date :: "datetime option"
  segment :: "string option"
  brand :: "string option"
  active_only :: bool

record ProcessedCampaignData =
  raw_data :: RawCampaignData
  falcon_data :: FalconFormattedData
  processed_at :: datetime

record CampaignResponse =
  total_count :: int
  processed_count :: int
  failed_count :: int
  campaigns :: "ProcessedCampaignData list"
  filters_applied :: "CampaignFilter option"

record Settings =
  DEBUG :: bool
  LOG_LEVEL :: string
  SECRET_KEY :: string
  DB_HOST :: string
  DB_PORT :: int
  DB_NAME :: string
  DB_USER :: string
  DB_PASSWORD :: string
  AKENEO_URL :: string
  AKENEO_CLIENT_ID_SECRET :: string
  AKENEO_USERNAME :: string
  AKENEO_PASSWORD :: string
  FALCON_API_URL :: string
  FALCON_API_KEY :: string
  DEFAULT_MOP_MULTIPLIER :: pyfloat
  DEFAULT_COINS :: int

text \<open>The settings when the environment overrides nothing; \<^verbatim>\<open>0.979\<close> is a literal.\<close>

definition default_settings :: Settings where
  "default_settings =
     \<lparr>DEBUG = False, LOG_LEVEL = ''INFO'',
      SECRET_KEY = ''your-secret-key-change-in-production'',
      DB_HOST = ''localhost'', DB_PORT = 3306, DB_NAME = ''store_ops'', DB_USER = [],
      DB_PASSWORD = [], AKENEO_URL = [], AKENEO_CLIENT_ID_SECRET = [],
      AKENEO_USERNAME = [], AKENEO_PASSWORD = [], FALCON_API_URL = [], FALCON_API_KEY = [],
      DEFAULT_MOP_MULTIPLIER = round_ratio 979 1000, DEFAULT_COINS = 2000\<rparr>"

section \<open>The campaign service (app/services/campaign\_service.py)\<close>

subsection \<open>transform\_to\_falcon\_format\<close>

definition opt_str :: "string option \<Rightarrow> pyval" where
  "opt_str x = (case x of None \<Rightarrow> PNone | Some s \<Rightarrow> PStr s)"

definition float_truthy :: "pyfloat option \<Rightarrow> bool" where
  "float_truthy x = (case x of None \<Rightarrow> False | Some f \<Rightarrow> \<not> is_zero f)"

text \<open>
  The constructor of the pydantic model checks its arguments: \<^verbatim>\<open>sku_id\<close> must be a
  string (pydantic 2, which \<^verbatim>\<open>pydantic_settings\<close> requires, converts nothing else to
  one) and \<^verbatim>\<open>MRP\<close> must not be \<^verbatim>\<open>None\<close>. The other arguments have the type of
  their field already.
\<close>

definition new_FalconFormattedData ::
  "pyval \<Rightarrow> string \<Rightarrow> pyfloat option \<Rightarrow> pyfloat \<Rightarrow> pyfloat \<Rightarrow> pyfloat \<Rightarrow> pyfloat \<Rightarrow> int
     \<Rightarrow> py_exception + FalconFormattedData" where
  "new_FalconFormattedData sku pid mrp mop sp mc spc cs =
     (case (sku, mrp) of
        (PStr s, Some m) \<Rightarrow>
          Inr \<lparr>sku_id = s, product_id = pid, MRP = m, MOP = mop, selling_price = sp,
               mop_cost = mc, selling_price_cost = spc, coins = cs\<rparr>
      | _ \<Rightarrow> Inl ValidationError)"

text \<open>The body of the \<^verbatim>\<open>try\<close> block.\<close>

definition transform_body ::
  "'w get_product_fn \<Rightarrow> (string \<Rightarrow> pyfloat option) \<Rightarrow> Settings \<Rightarrow> RawCampaignData \<Rightarrow> 'w
     \<Rightarrow> (py_exception + FalconFormattedData) \<times> 'w" where
  "transform_body get_product parse settings raw w =
     (let pid = RawCampaignData.product_id raw;
          sp = RawCampaignData.selling_price raw;
          sku0 = opt_str (preferred_landing_sku_id raw);
          (r1, w1) = (if \<not> truthy sku0 then get_product_sku_mapping get_product pid w
                      else (Inr sku0, w))
      in (case r1 of
            Inl exn \<Rightarrow> (Inl exn, w1)
          | Inr sku1 \<Rightarrow>
              (let sku = (if \<not> truthy sku1 then PStr pid else sku1);
                   mrp0 = RawCampaignData.MRP raw;
                   (r2, w2) = (if \<not> float_truthy mrp0
                               then get_product_mrp get_product parse pid w1
                               else (Inr mrp0, w1))
               in (case r2 of
                     Inl exn \<Rightarrow> (Inl exn, w2)
                   | Inr mrp1 \<Rightarrow>
                       (let mrp = (if \<not> float_truthy mrp1
                                   then Some (fmul sp (round_ratio 3 2)) else mrp1);
                            mc = fmul sp (DEFAULT_MOP_MULTIPLIER settings);
                            mop = sp
                        in (new_FalconFormattedData sku pid mrp mop sp mc sp
                              (DEFAULT_COINS settings), w2))))))"

text \<open>\<^verbatim>\<open>except Exception\<close>: log and return \<^verbatim>\<open>None\<close>.\<close>

definition transform_to_falcon_format ::
  "'w get_product_fn \<Rightarrow> (string \<Rightarrow> pyfloat option) \<Rightarrow> Settings \<Rightarrow> RawCampaignData \<Rightarrow> 'w
     \<Rightarrow> (py_exception + FalconFormattedData option) \<times> 'w" where
  "transform_to_falcon_format get_product parse settings raw w =
     (case transform_body get_product parse settings raw w of
        (Inl exn, w') \<Rightarrow> (Inr None, w')
      | (Inr fd, w') \<Rightarrow> (Inr (Some fd), w'))"

subsection \<open>process\_campaign\_data\<close>

text \<open>
  The loop, with the list of processed campaigns and the count of failures it has built
  so far. \<open>clock\<close> reads the time in a state of the world, for \<^verbatim>\<open>processed_at\<close>. A
  model instance is true in \<^verbatim>\<open>if falcon_data\<close>; \<^verbatim>\<open>None\<close> and an exception both
  count as a failure.
\<close>

fun process_loop ::
  "'w get_product_fn \<Rightarrow> (string \<Rightarrow> pyfloat option) \<Rightarrow> ('w \<Rightarrow> datetime) \<Rightarrow> Settings
     \<Rightarrow> RawCampaignData list \<Rightarrow> ProcessedCampaignData list \<Rightarrow> int \<Rightarrow> 'w
     \<Rightarrow> (ProcessedCampaignData list \<times> int) \<times> 'w" where
  "process_loop get_product parse clock settings [] processed failed w = ((processed, failed), w)"
| "process_loop get_product parse clock settings (raw # rest) processed failed w =
     (case transform_to_falcon_format get_product parse settings raw w of
        (Inl exn, w') \<Rightarrow>
          process_loop get_product parse clock settings rest processed (failed + 1) w'
      | (Inr None, w') \<Rightarrow>
          process_loop get_product parse clock settings rest processed (failed + 1) w'
      | (Inr (Some fd), w') \<Rightarrow>
          process_loop get_product parse clock settings rest
            (processed @ [\<lparr>raw_data = raw, falcon_data = fd, processed_at = clock w'\<rparr>])
            failed w')"

definition process_campaign_data ::
  "'w get_product_fn \<Rightarrow> (string \<Rightarrow> pyfloat option) \<Rightarrow> ('w \<Rightarrow> datetime) \<Rightarrow> Settings
     \<Rightarrow> RawCampaignData list \<Rightarrow> 'w \<Rightarrow> CampaignResponse \<times> 'w" where
  "process_campaign_data get_product parse clock settings raw_campaigns w =
     (case process_loop get_product parse clock settings raw_campaigns [] 0 w of
        ((processed_campaigns, failed), w') \<Rightarrow>
          (\<lparr>total_count = int (length raw_campaigns),
            processed_count = int (length processed_campaigns),
            failed_count = failed,
            campaigns = processed_campaigns,
            filters_applied = None\<rparr>, w'))"

subsection \<open>validate\_campaign\_data\<close>

text \<open>
  The four checks each append their message; then the \<^verbatim>\<open>try\<close> block parses the two
  dates and compares them. Only \<^verbatim>\<open>ValueError\<close> is caught.
\<close>

definition validate_campaign_data :: "RawCampaignData \<Rightarrow> py_exception + string list" where
  "validate_campaign_data raw =
     (let e1 = (if RawCampaignData.product_id raw = [] then [''Product ID is required'']
                else []);
          e2 = (if is_zero (RawCampaignData.selling_price raw)
                     \<or> fle (RawCampaignData.selling_price raw) fzero
                then [''Valid selling price is required''] else []);
          e3 = (if live_date raw = [] then [''Live date is required''] else []);
          e4 = (if RawCampaignData.end_date raw = [] then [''End date is required''] else []);
          errors = e1 @ e2 @ e3 @ e4
      in case strptime (live_date raw) of
           Inl exn \<Rightarrow>
             (if exn = ValueError
              then Inr (errors @ [''Invalid date format. Expected DD/MM/YYYY''])
              else Inl exn)
         | Inr live \<Rightarrow>
             (case strptime (RawCampaignData.end_date raw) of
                Inl exn \<Rightarrow>
                  (if exn = ValueError
                   then Inr (errors @ [''Invalid date format. Expected DD/MM/YYYY''])
                   else Inl exn)
              | Inr end_d \<Rightarrow>
                  Inr (if dt_le end_d live
                       then errors @ [''End date must be after live date'']
                       else errors)))"

subsection \<open>filter\_active\_campaigns\<close>

text \<open>
  \<open>current_date\<close> is what \<^verbatim>\<open>datetime.now()\<close> returned before the loop: a date and a
  time of day. A campaign whose dates do not parse is skipped (\<^verbatim>\<open>except ValueError\<close>).
\<close>

fun filter_loop ::
  "datetime \<Rightarrow> RawCampaignData list \<Rightarrow> RawCampaignData list
     \<Rightarrow> py_exception + RawCampaignData list" where
  "filter_loop current_date [] active_campaigns = Inr active_campaigns"
| "filter_loop current_date (campaign # rest) active_campaigns =
     (case strptime (live_date campaign) of
        Inl exn \<Rightarrow>
          (if exn = ValueError then filter_loop current_date rest active_campaigns
           else Inl exn)
      | Inr live \<Rightarrow>
          (case strptime (RawCampaignData.end_date campaign) of
             Inl exn \<Rightarrow>
               (if exn = ValueError then filter_loop current_date rest active_campaigns
                else Inl exn)
           | Inr end_d \<Rightarrow>
               (if dt_le live current_date \<and> dt_le current_date end_d
                then filter_loop current_date rest (active_campaigns @ [campaign])
                else filter_loop current_date rest active_campaigns)))"

definition filter_active_campaigns ::
  "datetime \<Rightarrow> RawCampaignData list \<Rightarrow> py_exception + RawCampaignData list" where
  "filter_active_campaigns current_date campaign_list =
     filter_loop current_date campaign_list []"

subsection \<open>get\_campaign\_summary\<close>

text \<open>
  The values of the summary dictionary. The order in which a Python \<^verbatim>\<open>set\<close> is
  iterated is not fixed, so \<^verbatim>\<open>list(set(campaign_types))\<close> is kept as the set of its
  elements and the dictionary built over it as a map.
\<close>

datatype summary_value =
    SInt int
  | SFloat pyfloat
  | STypes "string set"
  | SCounts "string \<rightharpoonup> int"

text \<open>
  \<^verbatim>\<open>min\<close> and \<^verbatim>\<open>max\<close> keep the first of the smallest (largest) items: an item
  replaces the current one when it compares strictly below (above) it.
\<close>

fun py_min :: "pyfloat \<Rightarrow> pyfloat list \<Rightarrow> pyfloat" where
  "py_min cur [] = cur"
| "py_min cur (x # xs) = py_min (if flt x cur then x else cur) xs"

fun py_max :: "pyfloat \<Rightarrow> pyfloat list \<Rightarrow> pyfloat" where
  "py_max cur [] = cur"
| "py_max cur (x # xs) = py_max (if flt cur x then x else cur) xs"

text \<open>\<^verbatim>\<open>x / n\<close> for a float and an \<^verbatim>\<open>int\<close>: the \<^verbatim>\<open>int\<close> is converted first.\<close>

definition fdiv_int :: "pyfloat \<Rightarrow> int \<Rightarrow> py_exception + pyfloat" where
  "fdiv_int x n =
     (case py_float (\<lambda>s. None) (PInt n) of Inl exn \<Rightarrow> Inl exn | Inr d \<Rightarrow> fdiv x d)"

text \<open>
  \<open>fsum\<close> is the built-in \<^verbatim>\<open>sum\<close> on a list of floats, whose rounding depends on the
  version of the interpreter (since 3.12 it compensates for the rounding of the single
  additions). The dictionary is the list of its items, in the order of the literal.
\<close>

definition get_campaign_summary ::
  "(pyfloat list \<Rightarrow> pyfloat) \<Rightarrow> ProcessedCampaignData list
     \<Rightarrow> py_exception + (string \<times> summary_value) list" where
  "get_campaign_summary fsum cs =
     (if cs = [] then Inr [(''total_campaigns'', SInt 0)]
      else
        let selling_prices = map (\<lambda>c. FalconFormattedData.selling_price (falcon_data c)) cs;
            mrps = map (\<lambda>c. FalconFormattedData.MRP (falcon_data c)) cs;
            campaign_types = map (\<lambda>c. issue_type (raw_data c)) cs
        in case fdiv_int (fsum selling_prices) (int (length selling_prices)) of
             Inl exn \<Rightarrow> Inl exn
           | Inr avg_sp \<Rightarrow>
               (case fdiv_int (fsum mrps) (int (length mrps)) of
                  Inl exn \<Rightarrow> Inl exn
                | Inr avg_mrp \<Rightarrow>
                    Inr [(''total_campaigns'', SInt (int (length cs))),
                         (''campaign_types'', STypes (set campaign_types)),
                         (''avg_selling_price'', SFloat avg_sp),
                         (''min_selling_price'',
                            SFloat (py_min (hd selling_prices) (tl selling_prices))),
                         (''max_selling_price'',
                            SFloat (py_max (hd selling_prices) (tl selling_prices))),
                         (''avg_mrp'', SFloat avg_mrp),
                         (''total_potential_revenue'', SFloat (fsum selling_prices)),
                         (''campaign_type_counts'',
                            SCounts (\<lambda>t. if t \<in> set campaign_types
                                          then Some (int (count_list campaign_types t))
                                          else None))]))"

section \<open>Statements of the specification and sample inputs\<close>

text \<open>The data of the first value stored under an attribute code, if any.\<close>

definition first_data :: "ProductDetails \<Rightarrow> string \<Rightarrow> pyval" where
  "first_data product attr =
     (case values_field product attr of Some (v # vs) \<Rightarrow> data v | _ \<Rightarrow> PNone)"

definition null_value :: Value where
  "null_value = \<lparr>locale_field = None, scope = None, data = PNone, linked_data = None,
     reference_data_name = None, attribute_type = None, assets = None\<rparr>"

definition sku_null_product :: ProductDetails where
  "sku_null_product = \<lparr>id_field = ''P1'', family = ''shoes'', parent = None,
     values_field = [''sku'' \<mapsto> [null_value]]\<rparr>"

definition sku_empty_product :: ProductDetails where
  "sku_empty_product = \<lparr>id_field = ''P1'', family = ''shoes'', parent = None,
     values_field = [''sku'' \<mapsto> [null_value\<lparr>data := PStr []\<rparr>]]\<rparr>"

text \<open>
  Two remote services, with the number of requests made so far as the state of the
  world: one answers every request with the same product, the other with an error.
\<close>

definition always :: "ProductDetails \<Rightarrow> nat get_product_fn" where
  "always product = (\<lambda>pid n. (Inr product, Suc n))"

definition unreachable :: "nat get_product_fn" where
  "unreachable = (\<lambda>pid n. (Inl (OtherException ''Failed to get product: 404''), Suc n))"

text \<open>An attribute code that carries data: its first value holds something other than null.\<close>

definition has_data :: "ProductDetails \<Rightarrow> string \<Rightarrow> bool" where
  "has_data product attr = (first_data product attr \<noteq> PNone)"

text \<open>
  A product whose \<^verbatim>\<open>mrp\<close> attribute is a price collection (a list of amounts with
  their currencies) and whose \<^verbatim>\<open>MRP\<close> attribute is a number; and one whose only
  MRP data is under \<^verbatim>\<open>list_price\<close>.
\<close>

definition price_product :: ProductDetails where
  "price_product = \<lparr>id_field = ''P1'', family = ''shoes'', parent = None,
     values_field =
       [''mrp'' \<mapsto> [null_value\<lparr>data :=
            PList [PDict [(''amount'', PStr ''499.00''), (''currency'', PStr ''INR'')]]\<rparr>],
        ''MRP'' \<mapsto> [null_value\<lparr>data := PInt 250\<rparr>]]\<rparr>"

definition list_price_product :: ProductDetails where
  "list_price_product = \<lparr>id_field = ''P1'', family = ''shoes'', parent = None,
     values_field =
       [''mrp'' \<mapsto> [null_value], ''list_price'' \<mapsto> [null_value\<lparr>data := PInt 250\<rparr>]]\<rparr>"

text \<open>
  The raw record of the scenario: product \<^verbatim>\<open>P1\<close>, selling price 100.0, no MRP and no
  preferred landing SKU. Two variants: one with a preferred SKU and an MRP of 0.0, one
  with an MRP of 250.0.
\<close>

definition scenario_raw :: RawCampaignData where
  "scenario_raw =
     \<lparr>issue_type = ''DOD'', live_date = ''01/06/2025'', RawCampaignData.segment = ''Footwear'',
      slot = None, RawCampaignData.end_date = ''30/06/2025'', request_type = ''SP Change'',
      monetary_type = None, cpc = None, RawCampaignData.product_id = ''P1'',
      akeneo_product_name = None, akeneo_brand_name = None,
      RawCampaignData.selling_price = round_ratio 100 1, projected_inventory = None,
      RawCampaignData.brand = None, preferred_landing_sku_id = None, property = None,
      funnel = None, mv = None, top_bet_date = None, campaign_name = None, top_bet = None,
      article_type = None, akeneo_family = None, RawCampaignData.MRP = None,
      segment_in = None, remarks = None, price_remarks = None, user_email = None,
      impressions = None, tacos = None, index = None, available_inventory = None\<rparr>"

definition zero_mrp_raw :: RawCampaignData where
  "zero_mrp_raw = scenario_raw\<lparr>preferred_landing_sku_id := Some ''S1'',
     RawCampaignData.MRP := Some fzero\<rparr>"

definition priced_raw :: RawCampaignData where
  "priced_raw = scenario_raw\<lparr>RawCampaignData.MRP := Some (round_ratio 250 1)\<rparr>"

text \<open>
  A product whose \<^verbatim>\<open>sku\<close> attribute holds a number; half past ten on 15 June
  2025; the enriched record of the scenario, and two processed campaigns of different
  types.
\<close>

definition numeric_sku_product :: ProductDetails where
  "numeric_sku_product = \<lparr>id_field = ''P1'', family = ''shoes'', parent = None,
     values_field = [''sku'' \<mapsto> [null_value\<lparr>data := PInt 7\<rparr>]]\<rparr>"

definition mid_june :: datetime where
  "mid_june = \<lparr>year = 2025, month = 6, day = 15, hour = 10, minute = 30, second = 0,
     microsecond = 0\<rparr>"

definition scenario_falcon :: FalconFormattedData where
  "scenario_falcon =
     \<lparr>sku_id = ''P1'', product_id = ''P1'', MRP = round_ratio 150 1, MOP = round_ratio 100 1,
      selling_price = round_ratio 100 1,
      mop_cost = fmul (round_ratio 100 1) (round_ratio 979 1000),
      selling_price_cost = round_ratio 100 1, coins = 2000\<rparr>"

definition processed_dod :: ProcessedCampaignData where
  "processed_dod =
     \<lparr>raw_data = scenario_raw, falcon_data = scenario_falcon, processed_at = mid_june\<rparr>"

definition processed_flash :: ProcessedCampaignData where
  "processed_flash = processed_dod\<lparr>raw_data := scenario_raw\<lparr>issue_type := ''FLASH_SALE''\<rparr>\<rparr>"


text \<open>
  The activity filter in the words of the specification: both dates parse and the
  current moment lies between them, both ends included.
\<close>

definition is_active :: "datetime \<Rightarrow> RawCampaignData \<Rightarrow> bool" where
  "is_active now c =
     (case strptime (live_date c) of
        Inl exn \<Rightarrow> False
      | Inr live \<Rightarrow>
          (case strptime (RawCampaignData.end_date c) of
             Inl exn \<Rightarrow> False
           | Inr end_d \<Rightarrow> dt_le live now \<and> dt_le now end_d))"

text \<open>
  A campaign that ended on 14 June 2025, one whose live date is not in the format, and
  a record with nothing filled in.
\<close>

definition ended_raw :: RawCampaignData where
  "ended_raw = scenario_raw\<lparr>RawCampaignData.end_date := ''14/06/2025''\<rparr>"

definition undated_raw :: RawCampaignData where
  "undated_raw = scenario_raw\<lparr>live_date := ''2025-06-01''\<rparr>"

definition empty_raw :: RawCampaignData where
  "empty_raw = scenario_raw\<lparr>RawCampaignData.product_id := [],
     RawCampaignData.selling_price := fzero, live_date := [],
     RawCampaignData.end_date := []\<rparr>"

text \<open>
  A record whose end date lies before its live date, and a campaign whose last day is
  15 June 2025, with the midnight that starts that day.
\<close>

definition misordered_raw :: RawCampaignData where
  "misordered_raw = scenario_raw\<lparr>live_date := ''20/01/2025'',
     RawCampaignData.end_date := ''19/01/2025''\<rparr>"

definition ending_today_raw :: RawCampaignData where
  "ending_today_raw = scenario_raw\<lparr>RawCampaignData.end_date := ''15/06/2025''\<rparr>"

definition midnight_mid_june :: datetime where
  "midnight_mid_june = \<lparr>year = 2025, month = 6, day = 15, hour = 0, minute = 0, second = 0,
     microsecond = 0\<rparr>"

text \<open>
  The messages of the four required-field rules of the validator, in the order of the
  rules.
\<close>

definition required_errors :: "RawCampaignData \<Rightarrow> string list" where
  "required_errors raw =
     (if RawCampaignData.product_id raw = [] then [''Product ID is required''] else [])
     @ (if is_zero (RawCampaignData.selling_price raw)
           \<or> fle (RawCampaignData.selling_price raw) fzero
        then [''Valid selling price is required''] else [])
     @ (if live_date raw = [] then [''Live date is required''] else [])
     @ (if RawCampaignData.end_date raw = [] then [''End date is required''] else [])"

section \<open>The PIM client: SKU and MRP lookups\<close>

text \<open>
  C5, as the code has it. \<^verbatim>\<open>get_product_sku_mapping\<close> never raises and makes one
  product fetch. It returns \<^verbatim>\<open>None\<close> when the fetch fails. When the fetch succeeds
  it returns the data of the first value of the \<^verbatim>\<open>sku\<close> attribute if the attribute
  has a non-empty list of values, whatever that data is, and the product id otherwise.
\<close>

theorem sku_mapping_result:
  "(\<exists>v. fst (get_product_sku_mapping get_product pid w) = Inr v)
   \<and> snd (get_product_sku_mapping get_product pid w) = snd (get_product pid w)
   \<and> (\<forall>exn. fst (get_product pid w) = Inl exn \<longrightarrow>
         fst (get_product_sku_mapping get_product pid w) = Inr PNone)
   \<and> (\<forall>product. fst (get_product pid w) = Inr product \<longrightarrow>
         fst (get_product_sku_mapping get_product pid w) =
           Inr (case values_field product ''sku'' of
                  Some (v # vs) \<Rightarrow> data v | _ \<Rightarrow> PStr pid))"
  by (auto simp: get_product_sku_mapping_def sku_mapping_body_def
      split: prod.splits sum.splits option.splits list.splits)

theorem sku_mapping_result_witness:
  "fst (get_product_sku_mapping unreachable ''P1'' 0) = Inr PNone
   \<and> fst (get_product_sku_mapping (always sku_null_product) ''P1'' 0) = Inr PNone
   \<and> fst (get_product_sku_mapping
        (always (sku_null_product\<lparr>values_field := Map.empty\<rparr>)) ''P1'' 0) = Inr (PStr ''P1'')"
proof -
  have a: "fst (unreachable ''P1'' 0) = Inl (OtherException ''Failed to get product: 404'')"
    by (simp add: unreachable_def)
  have b: "fst (always sku_null_product ''P1'' 0) = Inr sku_null_product"
    by (simp add: always_def)
  have c: "fst (always (sku_null_product\<lparr>values_field := Map.empty\<rparr>) ''P1'' 0)
             = Inr (sku_null_product\<lparr>values_field := Map.empty\<rparr>)"
    by (simp add: always_def)
  show ?thesis
    using sku_mapping_result [of unreachable "''P1''" 0] a
      sku_mapping_result [of "always sku_null_product" "''P1''" 0] b
      sku_mapping_result [of "always (sku_null_product\<lparr>values_field := Map.empty\<rparr>)" "''P1''" 0] c
    by (simp add: sku_null_product_def null_value_def)
qed

text \<open>
  The lookup returns \<^verbatim>\<open>None\<close> although the fetch succeeded when the first
  \<^verbatim>\<open>sku\<close> value holds no data, and the empty string when it holds the empty string.
\<close>

theorem sku_mapping_counterexample:
  "fst (always sku_null_product ''P1'' 0) = Inr sku_null_product
   \<and> fst (get_product_sku_mapping (always sku_null_product) ''P1'' 0) = Inr PNone
   \<and> fst (always sku_empty_product ''P1'' 0) = Inr sku_empty_product
   \<and> fst (get_product_sku_mapping (always sku_empty_product) ''P1'' 0) = Inr (PStr [])"
  by (simp add: always_def get_product_sku_mapping_def sku_mapping_body_def
      sku_null_product_def sku_empty_product_def null_value_def)

lemma probe_mrp_find:
  "probe_mrp parse product attrs =
     (case find (has_data product) attrs of
        None \<Rightarrow> Inr None
      | Some a \<Rightarrow>
          (case py_float parse (first_data product a) of
             Inl exn \<Rightarrow> Inl exn | Inr f \<Rightarrow> Inr (Some f)))"
  by (induction attrs)
     (auto simp: has_data_def first_data_def split: option.splits list.splits sum.splits)

lemma round_250: "round_ratio 250 1 = Finite 8796093022208000 (- 45)"
  by code_simp

text \<open>
  C6, as the code has it. \<^verbatim>\<open>get_product_mrp\<close> never raises and makes one product
  fetch. It returns \<^verbatim>\<open>None\<close> when the fetch fails. When the fetch succeeds it goes
  through the codes \<^verbatim>\<open>mrp\<close>, \<^verbatim>\<open>MRP\<close>, \<^verbatim>\<open>maximum_retail_price\<close>,
  \<^verbatim>\<open>list_price\<close> in this order and stops at the first one whose list of values is
  non-empty and starts with non-null data: the result is \<^verbatim>\<open>float\<close> of that data, or
  \<^verbatim>\<open>None\<close> if the conversion raises. No later code is looked at then. Without such a
  code the result is \<^verbatim>\<open>None\<close>.
\<close>

theorem mrp_lookup_result:
  "(\<exists>r. fst (get_product_mrp get_product parse pid w) = Inr r)
   \<and> snd (get_product_mrp get_product parse pid w) = snd (get_product pid w)
   \<and> (\<forall>exn. fst (get_product pid w) = Inl exn \<longrightarrow>
         fst (get_product_mrp get_product parse pid w) = Inr None)
   \<and> (\<forall>product. fst (get_product pid w) = Inr product \<longrightarrow>
         fst (get_product_mrp get_product parse pid w) =
           Inr (case find (has_data product)
                       [''mrp'', ''MRP'', ''maximum_retail_price'', ''list_price''] of
                  None \<Rightarrow> None
                | Some a \<Rightarrow>
                    (case py_float parse (first_data product a) of
                       Inl exn \<Rightarrow> None | Inr f \<Rightarrow> Some f)))"
proof -
  have "get_product_mrp get_product parse pid w =
          (case get_product pid w of
             (Inl exn, w') \<Rightarrow> (Inr None, w')
           | (Inr product, w') \<Rightarrow>
               (Inr (case find (has_data product) mrp_attributes of
                       None \<Rightarrow> None
                     | Some a \<Rightarrow>
                         (case py_float parse (first_data product a) of
                            Inl exn \<Rightarrow> None | Inr f \<Rightarrow> Some f)), w'))"
    by (simp add: get_product_mrp_def mrp_body_def probe_mrp_find
        split: prod.splits sum.splits option.splits)
  then show ?thesis
    by (auto simp: mrp_attributes_def split: prod.splits sum.splits)
qed

theorem mrp_lookup_result_witness:
  "fst (get_product_mrp unreachable (\<lambda>s. None) ''P1'' 0) = Inr None
   \<and> fst (get_product_mrp (always sku_null_product) (\<lambda>s. None) ''P1'' 0) = Inr None
   \<and> fst (get_product_mrp (always list_price_product) (\<lambda>s. None) ''P1'' 0)
       = Inr (Some (Finite 8796093022208000 (- 45)))"
proof -
  have a: "fst (unreachable ''P1'' 0) = Inl (OtherException ''Failed to get product: 404'')"
    by (simp add: unreachable_def)
  have b: "fst (always sku_null_product ''P1'' 0) = Inr sku_null_product"
    by (simp add: always_def)
  have c: "fst (always list_price_product ''P1'' 0) = Inr list_price_product"
    by (simp add: always_def)
  have "fst (get_product_mrp unreachable (\<lambda>s. None) ''P1'' 0) = Inr None"
    using mrp_lookup_result [of unreachable "\<lambda>s. None" "''P1''" 0] a by simp
  moreover have "fst (get_product_mrp (always sku_null_product) (\<lambda>s. None) ''P1'' 0)
      = Inr (case find (has_data sku_null_product)
                    [''mrp'', ''MRP'', ''maximum_retail_price'', ''list_price''] of
               None \<Rightarrow> None
             | Some a \<Rightarrow>
                 (case py_float (\<lambda>s. None) (first_data sku_null_product a) of
                    Inl exn \<Rightarrow> None | Inr f \<Rightarrow> Some f))"
    using mrp_lookup_result [of "always sku_null_product" "\<lambda>s. None" "''P1''" 0] b by simp
  moreover have "fst (get_product_mrp (always list_price_product) (\<lambda>s. None) ''P1'' 0)
      = Inr (case find (has_data list_price_product)
                    [''mrp'', ''MRP'', ''maximum_retail_price'', ''list_price''] of
               None \<Rightarrow> None
             | Some a \<Rightarrow>
                 (case py_float (\<lambda>s. None) (first_data list_price_product a) of
                    Inl exn \<Rightarrow> None | Inr f \<Rightarrow> Some f))"
    using mrp_lookup_result [of "always list_price_product" "\<lambda>s. None" "''P1''" 0] c by simp
  ultimately show ?thesis
    by (simp add: sku_null_product_def list_price_product_def null_value_def has_data_def
        first_data_def round_250)
qed

text \<open>
  The \<^verbatim>\<open>MRP\<close> attribute holds the number 250, present, non-null and numeric, but the
  \<^verbatim>\<open>mrp\<close> attribute before it holds a price collection: \<^verbatim>\<open>float\<close> raises
  \<^verbatim>\<open>TypeError\<close> on the list and the lookup returns \<^verbatim>\<open>None\<close>.
\<close>

theorem mrp_lookup_counterexample:
  "fst (always price_product ''P1'' 0) = Inr price_product
   \<and> first_data price_product ''MRP'' = PInt 250
   \<and> py_float (\<lambda>s. None) (PInt 250) = Inr (Finite 8796093022208000 (- 45))
   \<and> fst (get_product_mrp (always price_product) (\<lambda>s. None) ''P1'' 0) = Inr None"
  by (simp add: always_def get_product_mrp_def mrp_body_def mrp_attributes_def
      price_product_def null_value_def first_data_def round_250)

section \<open>The enrichment and transform engine\<close>

text \<open>The floats of the scenario: 100.0, 150.0, 0.979, 97.9 and 1.5, and two products.\<close>

lemma round_100: "round_ratio 100 1 = Finite 7036874417766400 (- 46)"
  by code_simp

lemma round_150: "round_ratio 150 1 = Finite 5277655813324800 (- 45)"
  by code_simp

lemma round_0979: "round_ratio 979 1000 = Finite 8818048070391431 (- 53)"
  by code_simp

lemma round_979: "round_ratio 979 10 = Finite 6889100054993306 (- 46)"
  by code_simp

lemma round_15: "round_ratio 3 2 = Finite 6755399441055744 (- 52)"
  by code_simp

lemma mul_100_15: "fmul (Finite 7036874417766400 (- 46)) (Finite 6755399441055744 (- 52))
  = Finite 5277655813324800 (- 45)"
  by code_simp

lemma mul_100_0979: "fmul (Finite 7036874417766400 (- 46)) (Finite 8818048070391431 (- 53))
  = Finite 6889100054993305 (- 46)"
  by code_simp

lemma scenario_eval:
  "transform_to_falcon_format unreachable (\<lambda>s. None) default_settings scenario_raw 0 =
     (Inr (Some \<lparr>sku_id = ''P1'', product_id = ''P1'',
                 MRP = Finite 5277655813324800 (- 45),
                 MOP = Finite 7036874417766400 (- 46),
                 selling_price = Finite 7036874417766400 (- 46),
                 mop_cost = Finite 6889100054993305 (- 46),
                 selling_price_cost = Finite 7036874417766400 (- 46),
                 coins = 2000\<rparr>), 2)"
  by (simp add: transform_to_falcon_format_def transform_body_def new_FalconFormattedData_def
      get_product_sku_mapping_def sku_mapping_body_def get_product_mrp_def mrp_body_def
      unreachable_def scenario_raw_def default_settings_def opt_str_def float_truthy_def
      round_100 round_0979 round_15 mul_100_15 mul_100_0979 Let_def del: fmul.simps)

lemma zero_mrp_eval:
  "transform_to_falcon_format (always list_price_product) (\<lambda>s. None) default_settings zero_mrp_raw 0 =
     (Inr (Some \<lparr>sku_id = ''S1'', product_id = ''P1'',
                 MRP = Finite 8796093022208000 (- 45),
                 MOP = Finite 7036874417766400 (- 46),
                 selling_price = Finite 7036874417766400 (- 46),
                 mop_cost = Finite 6889100054993305 (- 46),
                 selling_price_cost = Finite 7036874417766400 (- 46),
                 coins = 2000\<rparr>), 1)"
  by (simp add: transform_to_falcon_format_def transform_body_def new_FalconFormattedData_def
      get_product_mrp_def mrp_body_def mrp_attributes_def list_price_product_def null_value_def
      always_def zero_mrp_raw_def scenario_raw_def default_settings_def opt_str_def
      float_truthy_def fzero_def is_zero_def
      round_100 round_0979 round_250 mul_100_0979 Let_def del: fmul.simps)


lemma priced_eval:
  "transform_to_falcon_format unreachable (\<lambda>s. None) default_settings priced_raw 0 =
     (Inr (Some \<lparr>sku_id = ''P1'', product_id = ''P1'',
                 MRP = Finite 8796093022208000 (- 45),
                 MOP = Finite 7036874417766400 (- 46),
                 selling_price = Finite 7036874417766400 (- 46),
                 mop_cost = Finite 6889100054993305 (- 46),
                 selling_price_cost = Finite 7036874417766400 (- 46),
                 coins = 2000\<rparr>), 1)"
  by (simp add: transform_to_falcon_format_def transform_body_def new_FalconFormattedData_def
      get_product_sku_mapping_def sku_mapping_body_def
      unreachable_def priced_raw_def scenario_raw_def default_settings_def opt_str_def
      float_truthy_def is_zero_def
      round_100 round_0979 round_250 mul_100_0979 Let_def del: fmul.simps)

lemma transform_never_raises:
  "\<exists>r. fst (transform_to_falcon_format get_product parse settings raw w) = Inr r"
  by (simp add: transform_to_falcon_format_def split: prod.splits sum.splits)

lemma new_Falcon_Inr:
  "new_FalconFormattedData sku pid mrp mop sp mc spc cs = Inr fd
   \<Longrightarrow> sku = PStr (sku_id fd) \<and> mrp = Some (FalconFormattedData.MRP fd)"
  by (auto simp: new_FalconFormattedData_def split: pyval.splits option.splits)

lemma sku_mapping_world:
  "snd (get_product_sku_mapping get_product pid w) = snd (get_product pid w)"
  by (simp add: get_product_sku_mapping_def sku_mapping_body_def
      split: prod.splits sum.splits option.splits list.splits)

lemma is_zero_250: "\<not> is_zero (round_ratio 250 1)"
  by (simp add: round_250 is_zero_def)

text \<open>
  C3. For a raw record with a non-empty product id, whatever the PIM answers to the SKU
  and MRP lookups: a record returned by \<^verbatim>\<open>transform_to_falcon_format\<close> has a
  non-empty \<^verbatim>\<open>sku_id\<close>, and its \<^verbatim>\<open>MRP\<close> is a float (the constructor rejects
  \<^verbatim>\<open>None\<close>) that comes from the raw record, from the PIM lookup or from the selling
  price times 1.5.
\<close>

theorem transform_fallback_guarantee:
  assumes pid: "RawCampaignData.product_id raw \<noteq> []"
    and ret: "fst (transform_to_falcon_format get_product parse settings raw w) = Inr (Some fd)"
  shows "sku_id fd \<noteq> []
     \<and> (RawCampaignData.MRP raw = Some (FalconFormattedData.MRP fd)
        \<or> (\<exists>w1. fst (get_product_mrp get_product parse (RawCampaignData.product_id raw) w1)
                   = Inr (Some (FalconFormattedData.MRP fd)))
        \<or> FalconFormattedData.MRP fd
             = fmul (RawCampaignData.selling_price raw) (round_ratio 3 2))"
proof -
  let ?pid = "RawCampaignData.product_id raw"
  let ?pref = "opt_str (preferred_landing_sku_id raw)"
  obtain r1 w1 where s1:
    "(if \<not> truthy ?pref then get_product_sku_mapping get_product ?pid w else (Inr ?pref, w))
       = (r1, w1)"
    by (metis prod.exhaust)
  from ret obtain w' where body:
    "transform_body get_product parse settings raw w = (Inr fd, w')"
    by (auto simp: transform_to_falcon_format_def split: prod.splits sum.splits)
  from body s1 obtain sku1 where r1: "r1 = Inr sku1"
    by (cases r1) (auto simp: transform_body_def Let_def)
  let ?sku = "if \<not> truthy sku1 then PStr ?pid else sku1"
  let ?rawmrp = "RawCampaignData.MRP raw"
  obtain r2 w2 where s2:
    "(if \<not> float_truthy ?rawmrp then get_product_mrp get_product parse ?pid w1
      else (Inr ?rawmrp, w1)) = (r2, w2)"
    by (metis prod.exhaust)
  from body s1 r1 s2 obtain mrp1 where r2: "r2 = Inr mrp1"
    by (cases r2) (auto simp: transform_body_def Let_def)
  let ?mrp = "if \<not> float_truthy mrp1
              then Some (fmul (RawCampaignData.selling_price raw) (round_ratio 3 2)) else mrp1"
  from body s1 r1 s2 r2 have
    "new_FalconFormattedData ?sku ?pid ?mrp (RawCampaignData.selling_price raw)
       (RawCampaignData.selling_price raw)
       (fmul (RawCampaignData.selling_price raw) (DEFAULT_MOP_MULTIPLIER settings))
       (RawCampaignData.selling_price raw) (DEFAULT_COINS settings) = Inr fd"
    by (simp add: transform_body_def Let_def)
  from new_Falcon_Inr [OF this]
  have sku: "?sku = PStr (sku_id fd)" and mrp: "?mrp = Some (FalconFormattedData.MRP fd)"
    by simp_all
  have "sku_id fd \<noteq> []"
  proof (cases "truthy sku1")
    case True
    with sku have "sku1 = PStr (sku_id fd)" by simp
    with True show ?thesis by simp
  next
    case False
    with sku pid show ?thesis by auto
  qed
  moreover have "?rawmrp = Some (FalconFormattedData.MRP fd)
     \<or> (\<exists>w1. fst (get_product_mrp get_product parse ?pid w1)
                = Inr (Some (FalconFormattedData.MRP fd)))
     \<or> FalconFormattedData.MRP fd = fmul (RawCampaignData.selling_price raw) (round_ratio 3 2)"
  proof (cases "float_truthy mrp1")
    case False
    with mrp show ?thesis by simp
  next
    case True
    with mrp have m1: "mrp1 = Some (FalconFormattedData.MRP fd)" by simp
    show ?thesis
    proof (cases "float_truthy ?rawmrp")
      case True
      with s2 r2 m1 show ?thesis by simp
    next
      case False
      with s2 r2 m1 have
        "fst (get_product_mrp get_product parse ?pid w1) = Inr (Some (FalconFormattedData.MRP fd))"
        by simp
      then show ?thesis by blast
    qed
  qed
  ultimately show ?thesis by simp
qed

theorem transform_fallback_guarantee_witness:
  "RawCampaignData.product_id scenario_raw \<noteq> []
   \<and> fst (transform_to_falcon_format unreachable (\<lambda>s. None) default_settings scenario_raw 0)
       = Inr (Some \<lparr>sku_id = ''P1'', product_id = ''P1'',
                 MRP = Finite 5277655813324800 (- 45),
                 MOP = Finite 7036874417766400 (- 46),
                 selling_price = Finite 7036874417766400 (- 46),
                 mop_cost = Finite 6889100054993305 (- 46),
                 selling_price_cost = Finite 7036874417766400 (- 46),
                 coins = 2000\<rparr>)
   \<and> ''P1'' \<noteq> []
   \<and> (RawCampaignData.MRP scenario_raw = Some (Finite 5277655813324800 (- 45))
      \<or> (\<exists>w1. fst (get_product_mrp unreachable (\<lambda>s. None)
                      (RawCampaignData.product_id scenario_raw) w1)
                 = Inr (Some (Finite 5277655813324800 (- 45))))
      \<or> Finite 5277655813324800 (- 45)
           = fmul (RawCampaignData.selling_price scenario_raw) (round_ratio 3 2))"
proof -
  have pid: "RawCampaignData.product_id scenario_raw \<noteq> []"
    by (simp add: scenario_raw_def)
  have ret: "fst (transform_to_falcon_format unreachable (\<lambda>s. None) default_settings scenario_raw 0)
       = Inr (Some \<lparr>sku_id = ''P1'', product_id = ''P1'',
                 MRP = Finite 5277655813324800 (- 45),
                 MOP = Finite 7036874417766400 (- 46),
                 selling_price = Finite 7036874417766400 (- 46),
                 mop_cost = Finite 6889100054993305 (- 46),
                 selling_price_cost = Finite 7036874417766400 (- 46),
                 coins = 2000\<rparr>)"
    by (simp add: scenario_eval)
  from transform_fallback_guarantee [OF pid ret] pid ret show ?thesis
    by simp
qed


text \<open>
  C4, as the code has it. When the raw record has an MRP that is not zero, a record
  returned by \<^verbatim>\<open>transform_to_falcon_format\<close> carries exactly that MRP, and the only
  product fetch made is the one of the SKU lookup, made when there is no preferred
  landing SKU: the world is left as that fetch leaves it.
\<close>

theorem transform_keeps_raw_mrp:
  assumes mrp: "RawCampaignData.MRP raw = Some m" and nz: "\<not> is_zero m"
  shows "(\<forall>fd. fst (transform_to_falcon_format get_product parse settings raw w) = Inr (Some fd)
            \<longrightarrow> FalconFormattedData.MRP fd = m)
     \<and> snd (transform_to_falcon_format get_product parse settings raw w)
         = (if truthy (opt_str (preferred_landing_sku_id raw)) then w
            else snd (get_product (RawCampaignData.product_id raw) w))"
proof -
  let ?pid = "RawCampaignData.product_id raw"
  let ?pref = "opt_str (preferred_landing_sku_id raw)"
  from mrp nz have ft: "float_truthy (RawCampaignData.MRP raw)"
    by (simp add: float_truthy_def)
  obtain r1 w1 where s1:
    "(if \<not> truthy ?pref then get_product_sku_mapping get_product ?pid w else (Inr ?pref, w))
       = (r1, w1)"
    by (metis prod.exhaust)
  have w1: "w1 = (if truthy ?pref then w else snd (get_product ?pid w))"
    using s1 sku_mapping_world [of get_product ?pid w]
    by (auto split: if_splits)
  have body: "transform_body get_product parse settings raw w =
      (case r1 of
         Inl exn \<Rightarrow> (Inl exn, w1)
       | Inr sku1 \<Rightarrow>
           (new_FalconFormattedData (if \<not> truthy sku1 then PStr ?pid else sku1) ?pid (Some m)
              (RawCampaignData.selling_price raw) (RawCampaignData.selling_price raw)
              (fmul (RawCampaignData.selling_price raw) (DEFAULT_MOP_MULTIPLIER settings))
              (RawCampaignData.selling_price raw) (DEFAULT_COINS settings), w1))"
    using s1 ft mrp by (simp add: transform_body_def Let_def split: sum.splits)
  have "snd (transform_to_falcon_format get_product parse settings raw w) = w1"
    by (simp add: transform_to_falcon_format_def body split: sum.splits prod.splits)
  moreover have "FalconFormattedData.MRP fd = m"
    if "fst (transform_to_falcon_format get_product parse settings raw w) = Inr (Some fd)" for fd
  proof -
    from that obtain sku where
      "new_FalconFormattedData sku ?pid (Some m)
              (RawCampaignData.selling_price raw) (RawCampaignData.selling_price raw)
              (fmul (RawCampaignData.selling_price raw) (DEFAULT_MOP_MULTIPLIER settings))
              (RawCampaignData.selling_price raw) (DEFAULT_COINS settings) = Inr fd"
      by (auto simp: transform_to_falcon_format_def body split: sum.splits prod.splits)
    from new_Falcon_Inr [OF this] show ?thesis by simp
  qed
  ultimately show ?thesis using w1 by simp
qed

theorem transform_keeps_raw_mrp_witness:
  "RawCampaignData.MRP priced_raw = Some (round_ratio 250 1)
   \<and> \<not> is_zero (round_ratio 250 1)
   \<and> fst (transform_to_falcon_format unreachable (\<lambda>s. None) default_settings priced_raw 0)
       = Inr (Some \<lparr>sku_id = ''P1'', product_id = ''P1'',
                 MRP = Finite 8796093022208000 (- 45),
                 MOP = Finite 7036874417766400 (- 46),
                 selling_price = Finite 7036874417766400 (- 46),
                 mop_cost = Finite 6889100054993305 (- 46),
                 selling_price_cost = Finite 7036874417766400 (- 46),
                 coins = 2000\<rparr>)
   \<and> Finite 8796093022208000 (- 45) = round_ratio 250 1
   \<and> snd (transform_to_falcon_format unreachable (\<lambda>s. None) default_settings priced_raw 0) = 1"
proof -
  have mrp: "RawCampaignData.MRP priced_raw = Some (round_ratio 250 1)"
    by (simp add: priced_raw_def)
  have pref: "\<not> truthy (opt_str (preferred_landing_sku_id priced_raw))"
    by (simp add: priced_raw_def scenario_raw_def opt_str_def)
  have ret: "fst (transform_to_falcon_format unreachable (\<lambda>s. None) default_settings priced_raw 0)
       = Inr (Some \<lparr>sku_id = ''P1'', product_id = ''P1'',
                 MRP = Finite 8796093022208000 (- 45),
                 MOP = Finite 7036874417766400 (- 46),
                 selling_price = Finite 7036874417766400 (- 46),
                 mop_cost = Finite 6889100054993305 (- 46),
                 selling_price_cost = Finite 7036874417766400 (- 46),
                 coins = 2000\<rparr>)"
    by (simp add: priced_eval)
  have w: "snd (unreachable (RawCampaignData.product_id priced_raw) 0) = 1"
    by (simp add: unreachable_def)
  from transform_keeps_raw_mrp [OF mrp is_zero_250, of unreachable "\<lambda>s. None" default_settings 0]
    mrp is_zero_250 pref ret w
  show ?thesis
    by simp
qed

text \<open>
  An MRP of 0.0 is present but false in \<^verbatim>\<open>if not mrp\<close>: the PIM is asked (one
  fetch) and its 250.0 replaces the 0.0 of the raw record.
\<close>

theorem transform_zero_mrp_counterexample:
  "RawCampaignData.MRP zero_mrp_raw = Some fzero
   \<and> transform_to_falcon_format (always list_price_product) (\<lambda>s. None) default_settings
        zero_mrp_raw 0 =
     (Inr (Some \<lparr>sku_id = ''S1'', product_id = ''P1'',
                 MRP = Finite 8796093022208000 (- 45),
                 MOP = Finite 7036874417766400 (- 46),
                 selling_price = Finite 7036874417766400 (- 46),
                 mop_cost = Finite 6889100054993305 (- 46),
                 selling_price_cost = Finite 7036874417766400 (- 46),
                 coins = 2000\<rparr>), 1)
   \<and> Finite 8796093022208000 (- 45) \<noteq> fzero"
  by (simp add: zero_mrp_eval) (simp add: zero_mrp_raw_def fzero_def)

text \<open>
  C2, as the code has it. For a raw record with product id \<^verbatim>\<open>P1\<close>, selling price
  100.0, no MRP and no preferred landing SKU, when the SKU lookup and the MRP lookup both
  return \<^verbatim>\<open>None\<close>, the default settings give the record with SKU \<^verbatim>\<open>P1\<close>, MRP
  150.0, MOP 100.0, selling price and selling price cost 100.0, 2000 coins, and the MOP
  cost \<open>100.0 * 0.979\<close>. In binary64 this product is 97.89999999999999
  (\<open>6889100054993305 * 2 ^ - 46\<close>), one unit in the last place below the float 97.9
  (\<open>6889100054993306 * 2 ^ - 46\<close>).
\<close>

theorem transform_scenario:
  assumes pid: "RawCampaignData.product_id raw = ''P1''"
    and sp: "RawCampaignData.selling_price raw = round_ratio 100 1"
    and mrp: "RawCampaignData.MRP raw = None"
    and pref: "preferred_landing_sku_id raw = None"
    and sku_null: "fst (get_product_sku_mapping get_product ''P1'' w) = Inr PNone"
    and mrp_null: "fst (get_product_mrp get_product parse ''P1''
                          (snd (get_product_sku_mapping get_product ''P1'' w))) = Inr None"
  shows "fst (transform_to_falcon_format get_product parse default_settings raw w) =
       Inr (Some \<lparr>sku_id = ''P1'', product_id = ''P1'',
                 MRP = round_ratio 150 1,
                 MOP = round_ratio 100 1,
                 selling_price = round_ratio 100 1,
                 mop_cost = fmul (round_ratio 100 1) (round_ratio 979 1000),
                 selling_price_cost = round_ratio 100 1,
                 coins = 2000\<rparr>)
     \<and> fmul (round_ratio 100 1) (round_ratio 979 1000) = Finite 6889100054993305 (- 46)
     \<and> round_ratio 979 10 = Finite 6889100054993306 (- 46)"
proof -
  obtain w1 where s1: "get_product_sku_mapping get_product ''P1'' w = (Inr PNone, w1)"
    using sku_null by (cases "get_product_sku_mapping get_product ''P1'' w") simp
  with mrp_null obtain w2 where s2: "get_product_mrp get_product parse ''P1'' w1 = (Inr None, w2)"
    by (cases "get_product_mrp get_product parse ''P1'' w1") simp
  have "fst (transform_to_falcon_format get_product parse default_settings raw w) =
       Inr (Some \<lparr>sku_id = ''P1'', product_id = ''P1'',
                 MRP = round_ratio 150 1,
                 MOP = round_ratio 100 1,
                 selling_price = round_ratio 100 1,
                 mop_cost = fmul (round_ratio 100 1) (round_ratio 979 1000),
                 selling_price_cost = round_ratio 100 1,
                 coins = 2000\<rparr>)"
    using pid sp mrp pref s1 s2
    by (simp add: transform_to_falcon_format_def transform_body_def new_FalconFormattedData_def
        default_settings_def opt_str_def float_truthy_def
        round_100 round_150 round_15 mul_100_15 Let_def del: fmul.simps)
  then show ?thesis
    by (simp add: round_100 round_0979 round_979 mul_100_0979 del: fmul.simps)
qed

theorem transform_scenario_witness:
  "fst (get_product_sku_mapping unreachable ''P1'' 0) = Inr PNone
   \<and> fst (get_product_mrp unreachable (\<lambda>s. None) ''P1''
            (snd (get_product_sku_mapping unreachable ''P1'' 0))) = Inr None
   \<and> fst (transform_to_falcon_format unreachable (\<lambda>s. None) default_settings scenario_raw 0) =
       Inr (Some \<lparr>sku_id = ''P1'', product_id = ''P1'',
                 MRP = round_ratio 150 1,
                 MOP = round_ratio 100 1,
                 selling_price = round_ratio 100 1,
                 mop_cost = fmul (round_ratio 100 1) (round_ratio 979 1000),
                 selling_price_cost = round_ratio 100 1,
                 coins = 2000\<rparr>)"
proof -
  have pid: "RawCampaignData.product_id scenario_raw = ''P1''"
    and sp: "RawCampaignData.selling_price scenario_raw = round_ratio 100 1"
    and mrp: "RawCampaignData.MRP scenario_raw = None"
    and pref: "preferred_landing_sku_id scenario_raw = None"
    by (simp_all add: scenario_raw_def)
  have sku_null: "fst (get_product_sku_mapping unreachable ''P1'' 0) = Inr PNone"
    by (simp add: get_product_sku_mapping_def sku_mapping_body_def unreachable_def)
  have mrp_null: "fst (get_product_mrp unreachable (\<lambda>s. None) ''P1''
            (snd (get_product_sku_mapping unreachable ''P1'' 0))) = Inr None"
    by (simp add: get_product_mrp_def mrp_body_def unreachable_def)
  from transform_scenario [OF pid sp mrp pref sku_null mrp_null] sku_null mrp_null
  show ?thesis by simp
qed

text \<open>The record of the scenario with a MOP cost of 97.9 is not what is returned.\<close>

theorem transform_scenario_counterexample:
  "fst (get_product_sku_mapping unreachable ''P1'' 0) = Inr PNone
   \<and> fst (get_product_mrp unreachable (\<lambda>s. None) ''P1'' 1) = Inr None
   \<and> fst (transform_to_falcon_format unreachable (\<lambda>s. None) default_settings scenario_raw 0)
       \<noteq> Inr (Some \<lparr>sku_id = ''P1'', product_id = ''P1'',
                 MRP = round_ratio 150 1,
                 MOP = round_ratio 100 1,
                 selling_price = round_ratio 100 1,
                 mop_cost = round_ratio 979 10,
                 selling_price_cost = round_ratio 100 1,
                 coins = 2000\<rparr>)"
proof -
  have "fst (get_product_sku_mapping unreachable ''P1'' 0) = Inr PNone"
    by (simp add: get_product_sku_mapping_def sku_mapping_body_def unreachable_def)
  moreover have "fst (get_product_mrp unreachable (\<lambda>s. None) ''P1'' 1) = Inr None"
    by (simp add: get_product_mrp_def mrp_body_def unreachable_def)
  ultimately show ?thesis
    by (simp add: scenario_eval round_979)
qed

section \<open>The batch processor\<close>

lemma process_loop_counts:
  "process_loop get_product parse clock settings raws processed failed w = ((ps, f), w')
   \<Longrightarrow> int (length ps) + f = int (length processed) + failed + int (length raws)"
proof (induction raws arbitrary: processed failed w)
  case Nil
  then show ?case by simp
next
  case (Cons raw rest)
  show ?case
  proof (cases "transform_to_falcon_format get_product parse settings raw w")
    case (Pair r w1)
    show ?thesis
    proof (cases r)
      case (Inl exn)
      with Pair Cons.prems have
        "process_loop get_product parse clock settings rest processed (failed + 1) w1 = ((ps, f), w')"
        by simp
      from Cons.IH [OF this] show ?thesis by simp
    next
      case (Inr res)
      show ?thesis
      proof (cases res)
        case None
        with Inr Pair Cons.prems have
          "process_loop get_product parse clock settings rest processed (failed + 1) w1 = ((ps, f), w')"
          by simp
        from Cons.IH [OF this] show ?thesis by simp
      next
        case (Some fd)
        with Inr Pair Cons.prems have
          "process_loop get_product parse clock settings rest
             (processed @ [\<lparr>raw_data = raw, falcon_data = fd, processed_at = clock w1\<rparr>])
             failed w1 = ((ps, f), w')"
          by simp
        from Cons.IH [OF this] show ?thesis by simp
      qed
    qed
  qed
qed

text \<open>
  C1. Whatever the list of raw campaigns, the empty one included, and whatever the PIM
  answers, the response of \<^verbatim>\<open>process_campaign_data\<close> has
  \<open>processed_count + failed_count = total_count\<close>, and \<open>total_count\<close> is the length of
  the list.
\<close>

theorem process_campaign_data_counts:
  "processed_count (fst (process_campaign_data get_product parse clock settings raws w))
     + failed_count (fst (process_campaign_data get_product parse clock settings raws w))
     = total_count (fst (process_campaign_data get_product parse clock settings raws w))
   \<and> total_count (fst (process_campaign_data get_product parse clock settings raws w))
     = int (length raws)"
proof -
  obtain ps f w' where
    loop: "process_loop get_product parse clock settings raws [] 0 w = ((ps, f), w')"
    by (metis prod.exhaust)
  from process_loop_counts [OF loop] have "int (length ps) + f = int (length raws)"
    by simp
  with loop show ?thesis
    by (simp add: process_campaign_data_def)
qed

lemma numeric_sku_eval:
  "transform_to_falcon_format (always numeric_sku_product) (\<lambda>s. None) default_settings
     scenario_raw w = (Inr None, Suc (Suc w))"
  by (simp add: transform_to_falcon_format_def transform_body_def new_FalconFormattedData_def
      get_product_sku_mapping_def sku_mapping_body_def get_product_mrp_def mrp_body_def
      mrp_attributes_def numeric_sku_product_def null_value_def
      always_def scenario_raw_def default_settings_def opt_str_def
      float_truthy_def Let_def del: fmul.simps)

lemma preferred_sku_eval:
  "transform_to_falcon_format (always numeric_sku_product) (\<lambda>s. None) default_settings
     zero_mrp_raw w =
     (Inr (Some \<lparr>sku_id = ''S1'', product_id = ''P1'',
                 MRP = Finite 5277655813324800 (- 45),
                 MOP = Finite 7036874417766400 (- 46),
                 selling_price = Finite 7036874417766400 (- 46),
                 mop_cost = Finite 6889100054993305 (- 46),
                 selling_price_cost = Finite 7036874417766400 (- 46),
                 coins = 2000\<rparr>), Suc w)"
  by (simp add: transform_to_falcon_format_def transform_body_def new_FalconFormattedData_def
      get_product_mrp_def mrp_body_def mrp_attributes_def numeric_sku_product_def null_value_def
      always_def zero_mrp_raw_def scenario_raw_def default_settings_def opt_str_def
      float_truthy_def fzero_def is_zero_def
      round_100 round_0979 round_15 mul_100_15 mul_100_0979 Let_def del: fmul.simps)

lemma batch_eval:
  "fst (process_campaign_data (always numeric_sku_product) (\<lambda>s. None) (\<lambda>w. mid_june)
          default_settings [scenario_raw, zero_mrp_raw] 0) =
     \<lparr>total_count = 2, processed_count = 1, failed_count = 1,
      campaigns =
        [\<lparr>raw_data = zero_mrp_raw,
          falcon_data =
            \<lparr>sku_id = ''S1'', product_id = ''P1'',
                 MRP = Finite 5277655813324800 (- 45),
                 MOP = Finite 7036874417766400 (- 46),
                 selling_price = Finite 7036874417766400 (- 46),
                 mop_cost = Finite 6889100054993305 (- 46),
                 selling_price_cost = Finite 7036874417766400 (- 46),
                 coins = 2000\<rparr>,
          processed_at = mid_june\<rparr>],
      filters_applied = None\<rparr>"
  by (simp add: process_campaign_data_def numeric_sku_eval preferred_sku_eval)

theorem process_campaign_data_counts_witness:
  "processed_count (fst (process_campaign_data (always numeric_sku_product) (\<lambda>s. None)
       (\<lambda>w. mid_june) default_settings [scenario_raw, zero_mrp_raw] 0)) = 1
   \<and> failed_count (fst (process_campaign_data (always numeric_sku_product) (\<lambda>s. None)
       (\<lambda>w. mid_june) default_settings [scenario_raw, zero_mrp_raw] 0)) = 1
   \<and> total_count (fst (process_campaign_data (always numeric_sku_product) (\<lambda>s. None)
       (\<lambda>w. mid_june) default_settings [scenario_raw, zero_mrp_raw] 0)) = 2
   \<and> processed_count (fst (process_campaign_data (always numeric_sku_product) (\<lambda>s. None)
       (\<lambda>w. mid_june) default_settings [scenario_raw, zero_mrp_raw] 0))
     + failed_count (fst (process_campaign_data (always numeric_sku_product) (\<lambda>s. None)
       (\<lambda>w. mid_june) default_settings [scenario_raw, zero_mrp_raw] 0))
     = int (length [scenario_raw, zero_mrp_raw])"
  using process_campaign_data_counts [of "always numeric_sku_product" "\<lambda>s. None"
      "\<lambda>w. mid_june" default_settings "[scenario_raw, zero_mrp_raw]" 0]
  by (simp add: batch_eval)



section \<open>The activity filter\<close>

lemma strptime_error: "strptime s = Inl exn \<Longrightarrow> exn = ValueError"
  by (auto simp: strptime_def split: list.splits option.splits if_splits)

lemma filter_loop_filter:
  "filter_loop now cs acc = Inr (acc @ filter (is_active now) cs)"
proof (induction cs arbitrary: acc)
  case Nil
  then show ?case by simp
next
  case (Cons c cs)
  show ?case
  proof (cases "strptime (live_date c)")
    case (Inl exn)
    with strptime_error [OF Inl] Cons.IH show ?thesis
      by (simp add: is_active_def)
  next
    case live: (Inr live)
    show ?thesis
    proof (cases "strptime (RawCampaignData.end_date c)")
      case (Inl exn)
      with strptime_error [OF Inl] live Cons.IH show ?thesis
        by (simp add: is_active_def)
    next
      case (Inr end_d)
      with live Cons.IH show ?thesis
        by (simp add: is_active_def)
    qed
  qed
qed

lemma lex_less_irrefl: "\<not> lex_less xs xs"
  by (induction xs) auto

lemma dt_le_refl: "dt_le t t"
  by (simp add: dt_le_def dt_less_def lex_less_irrefl)

lemma strptime_01_06: "strptime ''01/06/2025'' =
  Inr \<lparr>year = 2025, month = 6, day = 1, hour = 0, minute = 0, second = 0, microsecond = 0\<rparr>"
  by code_simp

lemma strptime_30_06: "strptime ''30/06/2025'' =
  Inr \<lparr>year = 2025, month = 6, day = 30, hour = 0, minute = 0, second = 0, microsecond = 0\<rparr>"
  by code_simp

lemma strptime_14_06: "strptime ''14/06/2025'' =
  Inr \<lparr>year = 2025, month = 6, day = 14, hour = 0, minute = 0, second = 0, microsecond = 0\<rparr>"
  by code_simp

lemma strptime_15_06: "strptime ''15/06/2025'' =
  Inr \<lparr>year = 2025, month = 6, day = 15, hour = 0, minute = 0, second = 0, microsecond = 0\<rparr>"
  by code_simp

lemma strptime_iso: "strptime ''2025-06-01'' = Inl ValueError"
  by code_simp

text \<open>
  \<^verbatim>\<open>filter_active_campaigns\<close> never fails and keeps, in their order, exactly the
  records whose live date and end date both parse under \<^verbatim>\<open>%d/%m/%Y\<close> and for which
  parsed live date \<open>\<le>\<close> current moment \<open>\<le>\<close> parsed end date; a record with a date that
  does not parse is left out.
\<close>

lemma filter_active_campaigns_is_filter:
  "filter_active_campaigns now cs = Inr (filter (is_active now) cs)"
  by (simp add: filter_active_campaigns_def filter_loop_filter)

text \<open>
  At any time of 15/06/2025 a record with live date 01/06/2025 and end date 30/06/2025
  is kept and a record with end date 14/06/2025 is left out.
\<close>

lemma mid_june_examples:
  assumes "year now = 2025 \<and> month now = 6 \<and> day now = 15"
  shows "live_date c = ''01/06/2025'' \<and> RawCampaignData.end_date c = ''30/06/2025''
           \<longrightarrow> is_active now c"
    and "RawCampaignData.end_date c = ''14/06/2025'' \<longrightarrow> \<not> is_active now c"
  using assms
  by (simp_all add: is_active_def strptime_01_06 strptime_30_06 strptime_14_06
      dt_le_def dt_less_def dt_fields_def split: sum.splits)

text \<open>
  The current moment carries a time of day and a parsed date is the midnight that starts
  its day: once the parsed end date lies before the current moment the record is left
  out, also when both are on the same day.
\<close>

lemma left_out_after_end_midnight:
  assumes "strptime (RawCampaignData.end_date c) = Inr end_d" and "dt_less end_d now"
  shows "\<not> is_active now c"
  using assms by (simp add: is_active_def dt_le_def split: sum.splits)

text \<open>
  C7. A record is to be kept when parsed live date \<open>\<le>\<close> now \<open>\<le>\<close> parsed end date, both
  ends included, with now given as a day (15/06/2025). The code compares the current
  moment with the midnight that starts the end date, so the end date is included at
  00:00:00 only: a campaign that runs from 01/06/2025 to 15/06/2025 is left out at 10:30
  on 15/06/2025, its last day, and kept at midnight of that day.
\<close>

theorem filter_drops_campaign_on_end_day:
  "live_date ending_today_raw = ''01/06/2025''
   \<and> RawCampaignData.end_date ending_today_raw = ''15/06/2025''
   \<and> mid_june = \<lparr>year = 2025, month = 6, day = 15, hour = 10, minute = 30, second = 0,
         microsecond = 0\<rparr>
   \<and> filter_active_campaigns mid_june [ending_today_raw] = Inr []
   \<and> filter_active_campaigns midnight_mid_june [ending_today_raw] = Inr [ending_today_raw]"
proof -
  have f: "live_date ending_today_raw = ''01/06/2025''"
    "RawCampaignData.end_date ending_today_raw = ''15/06/2025''"
    by (simp_all add: ending_today_raw_def scenario_raw_def)
  have "\<not> is_active mid_june ending_today_raw"
    by (simp add: is_active_def f strptime_01_06 strptime_15_06 mid_june_def
        dt_le_def dt_less_def dt_fields_def)
  moreover have "is_active midnight_mid_june ending_today_raw"
    by (simp add: is_active_def f strptime_01_06 strptime_15_06 midnight_mid_june_def
        dt_le_def dt_less_def dt_fields_def)
  ultimately show ?thesis
    using f by (simp add: filter_active_campaigns_def filter_loop_filter mid_june_def)
qed


section \<open>The validator\<close>

lemma strptime_empty: "strptime [] = Inl ValueError"
  by (simp add: strptime_def)

lemma strptime_20_01: "strptime ''20/01/2025'' =
  Inr \<lparr>year = 2025, month = 1, day = 20, hour = 0, minute = 0, second = 0, microsecond = 0\<rparr>"
  by code_simp

lemma strptime_19_01: "strptime ''19/01/2025'' =
  Inr \<lparr>year = 2025, month = 1, day = 19, hour = 0, minute = 0, second = 0, microsecond = 0\<rparr>"
  by code_simp

lemma price_100_valid:
  "\<not> is_zero (Finite 7036874417766400 (- 46)) \<and> \<not> fle (Finite 7036874417766400 (- 46)) fzero"
  by (simp add: is_zero_def fle_def fzero_def)

text \<open>
  The result of the validator: the required-field messages, then at most one message
  about the dates. It never raises, as \<^verbatim>\<open>strptime\<close> raises nothing but
  \<^verbatim>\<open>ValueError\<close>.
\<close>

lemma validate_cases:
  "validate_campaign_data raw =
     Inr (required_errors raw @
       (case strptime (live_date raw) of
          Inl exn \<Rightarrow> [''Invalid date format. Expected DD/MM/YYYY'']
        | Inr live \<Rightarrow>
            (case strptime (RawCampaignData.end_date raw) of
               Inl exn \<Rightarrow> [''Invalid date format. Expected DD/MM/YYYY'']
             | Inr end_d \<Rightarrow>
                 if dt_le end_d live then [''End date must be after live date''] else [])))"
proof (cases "strptime (live_date raw)")
  case (Inl exn)
  with strptime_error [OF Inl] show ?thesis
    by (simp add: validate_campaign_data_def required_errors_def Let_def)
next
  case live: (Inr live)
  show ?thesis
  proof (cases "strptime (RawCampaignData.end_date raw)")
    case (Inl exn)
    with strptime_error [OF Inl] live show ?thesis
      by (simp add: validate_campaign_data_def required_errors_def Let_def)
  next
    case (Inr end_d)
    with live show ?thesis
      by (simp add: validate_campaign_data_def required_errors_def Let_def)
  qed
qed

lemma required_errors_members:
  "(''Product ID is required'' \<in> set (required_errors raw)
      \<longleftrightarrow> RawCampaignData.product_id raw = [])
   \<and> (''Valid selling price is required'' \<in> set (required_errors raw)
      \<longleftrightarrow> is_zero (RawCampaignData.selling_price raw)
          \<or> fle (RawCampaignData.selling_price raw) fzero)
   \<and> (''Live date is required'' \<in> set (required_errors raw) \<longleftrightarrow> live_date raw = [])
   \<and> (''End date is required'' \<in> set (required_errors raw)
      \<longleftrightarrow> RawCampaignData.end_date raw = [])
   \<and> ''End date must be after live date'' \<notin> set (required_errors raw)
   \<and> ''Invalid date format. Expected DD/MM/YYYY'' \<notin> set (required_errors raw)"
  by (simp add: required_errors_def)

lemma required_errors_filter:
  "filter (\<lambda>m. m \<in> set (required_errors raw) \<or> m \<in> set d)
     [''Product ID is required'', ''Valid selling price is required'',
      ''Live date is required'', ''End date is required''] = required_errors raw"
  if "''Product ID is required'' \<notin> set d" "''Valid selling price is required'' \<notin> set d"
     "''Live date is required'' \<notin> set d" "''End date is required'' \<notin> set d"
  using that by (simp add: required_errors_def)


lemma sublist_in_order:
  assumes dist: "distinct [a, b, c, d, e, f]"
    and r: "r = (if p1 then [a] else []) @ (if p2 then [b] else [])
           @ (if p3 then [c] else []) @ (if p4 then [d] else [])"
    and t: "t = [] \<or> t = [e] \<or> t = [f]"
  shows "filter (\<lambda>m. m \<in> set (r @ t)) [a, b, c, d, e, f] = r @ t"
proof -
  have ma: "a \<in> set (r @ t) \<longleftrightarrow> p1" using dist r t by auto
  have mb: "b \<in> set (r @ t) \<longleftrightarrow> p2" using dist r t by auto
  have mc: "c \<in> set (r @ t) \<longleftrightarrow> p3" using dist r t by auto
  have md: "d \<in> set (r @ t) \<longleftrightarrow> p4" using dist r t by auto
  have me: "e \<in> set (r @ t) \<longleftrightarrow> t = [e]" using dist r t by auto
  have mf: "f \<in> set (r @ t) \<longleftrightarrow> t = [f]" using dist r t by auto
  have "filter (\<lambda>m. m \<in> set (r @ t)) [a, b, c, d, e, f] =
      (if p1 then [a] else []) @ (if p2 then [b] else [])
           @ (if p3 then [c] else []) @ (if p4 then [d] else [])
           @ (if t = [e] then [e] else []) @ (if t = [f] then [f] else [])"
    unfolding filter.simps ma mb mc md me mf by simp
  also have "(if t = [e] then [e] else []) @ (if t = [f] then [f] else []) = t"
    using t dist by auto
  finally show ?thesis using r by simp
qed

lemma messages_distinct:
  "distinct [''Product ID is required'', ''Valid selling price is required'',
      ''Live date is required'', ''End date is required'',
      ''End date must be after live date'', ''Invalid date format. Expected DD/MM/YYYY'']"
  by simp

lemma errors_in_rule_order:
  assumes "d = [] \<or> d = [''End date must be after live date'']
             \<or> d = [''Invalid date format. Expected DD/MM/YYYY'']"
  shows "filter (\<lambda>m. m \<in> set (required_errors raw @ d))
     [''Product ID is required'', ''Valid selling price is required'',
      ''Live date is required'', ''End date is required'',
      ''End date must be after live date'', ''Invalid date format. Expected DD/MM/YYYY'']
     = required_errors raw @ d"
  by (rule sublist_in_order [OF messages_distinct _ assms]) (simp only: required_errors_def)

text \<open>
  C8. \<^verbatim>\<open>validate_campaign_data\<close> returns a list (it never raises) that holds, in
  the order of the rules and without repetition, the message of every rule that is
  violated and no other: product id required, valid selling price required, live date
  required, end date required, each exactly when its own rule is violated whatever the
  other rules say; the date-format message exactly when one of the two dates does not
  parse; the ordering message exactly when both parse and the end date is not after the
  live date. For a record with empty product id, selling price 0 and empty live and end
  dates the list holds the four required-field messages and the date-format message:
  five entries, hence at least three.
\<close>

theorem validate_collects_all:
  "(\<exists>errs. validate_campaign_data raw = Inr errs
       \<and> (''Product ID is required'' \<in> set errs \<longleftrightarrow> RawCampaignData.product_id raw = [])
       \<and> (''Valid selling price is required'' \<in> set errs \<longleftrightarrow>
             is_zero (RawCampaignData.selling_price raw)
             \<or> fle (RawCampaignData.selling_price raw) fzero)
       \<and> (''Live date is required'' \<in> set errs \<longleftrightarrow> live_date raw = [])
       \<and> (''End date is required'' \<in> set errs \<longleftrightarrow> RawCampaignData.end_date raw = [])
       \<and> (''Invalid date format. Expected DD/MM/YYYY'' \<in> set errs \<longleftrightarrow>
             (\<exists>exn. strptime (live_date raw) = Inl exn)
             \<or> (\<exists>exn. strptime (RawCampaignData.end_date raw) = Inl exn))
       \<and> (''End date must be after live date'' \<in> set errs \<longleftrightarrow>
             (\<exists>live end_d. strptime (live_date raw) = Inr live
                \<and> strptime (RawCampaignData.end_date raw) = Inr end_d \<and> dt_le end_d live))
       \<and> errs = filter (\<lambda>m. m \<in> set errs)
             [''Product ID is required'', ''Valid selling price is required'',
              ''Live date is required'', ''End date is required'',
              ''End date must be after live date'',
              ''Invalid date format. Expected DD/MM/YYYY''])
   \<and> (RawCampaignData.product_id raw = [] \<and> is_zero (RawCampaignData.selling_price raw)
        \<and> live_date raw = [] \<and> RawCampaignData.end_date raw = [] \<longrightarrow>
        validate_campaign_data raw =
          Inr [''Product ID is required'', ''Valid selling price is required'',
               ''Live date is required'', ''End date is required'',
               ''Invalid date format. Expected DD/MM/YYYY'']
        \<and> 3 \<le> length [''Product ID is required'', ''Valid selling price is required'',
               ''Live date is required'', ''End date is required'',
               ''Invalid date format. Expected DD/MM/YYYY''])"
proof -
  define d where "d =
       (case strptime (live_date raw) of
          Inl exn \<Rightarrow> [''Invalid date format. Expected DD/MM/YYYY'']
        | Inr live \<Rightarrow>
            (case strptime (RawCampaignData.end_date raw) of
               Inl exn \<Rightarrow> [''Invalid date format. Expected DD/MM/YYYY'']
             | Inr end_d \<Rightarrow>
                 if dt_le end_d live then [''End date must be after live date''] else []))"
  have ret: "validate_campaign_data raw = Inr (required_errors raw @ d)"
    by (simp add: validate_cases d_def)
  have shape: "d = [] \<or> d = [''End date must be after live date'']
             \<or> d = [''Invalid date format. Expected DD/MM/YYYY'']"
    by (simp add: d_def split: sum.splits)
  have fmt: "''Invalid date format. Expected DD/MM/YYYY'' \<in> set d \<longleftrightarrow>
             (\<exists>exn. strptime (live_date raw) = Inl exn)
             \<or> (\<exists>exn. strptime (RawCampaignData.end_date raw) = Inl exn)"
    by (auto simp: d_def split: sum.splits)
  have ord: "''End date must be after live date'' \<in> set d \<longleftrightarrow>
             (\<exists>live end_d. strptime (live_date raw) = Inr live
                \<and> strptime (RawCampaignData.end_date raw) = Inr end_d \<and> dt_le end_d live)"
    by (auto simp: d_def split: sum.splits)
  have req: "''Product ID is required'' \<notin> set d"
    "''Valid selling price is required'' \<notin> set d"
    "''Live date is required'' \<notin> set d" "''End date is required'' \<notin> set d"
    using shape by auto
  note mem = required_errors_members [of raw]
  have general: "\<exists>errs. validate_campaign_data raw = Inr errs
       \<and> (''Product ID is required'' \<in> set errs \<longleftrightarrow> RawCampaignData.product_id raw = [])
       \<and> (''Valid selling price is required'' \<in> set errs \<longleftrightarrow>
             is_zero (RawCampaignData.selling_price raw)
             \<or> fle (RawCampaignData.selling_price raw) fzero)
       \<and> (''Live date is required'' \<in> set errs \<longleftrightarrow> live_date raw = [])
       \<and> (''End date is required'' \<in> set errs \<longleftrightarrow> RawCampaignData.end_date raw = [])
       \<and> (''Invalid date format. Expected DD/MM/YYYY'' \<in> set errs \<longleftrightarrow>
             (\<exists>exn. strptime (live_date raw) = Inl exn)
             \<or> (\<exists>exn. strptime (RawCampaignData.end_date raw) = Inl exn))
       \<and> (''End date must be after live date'' \<in> set errs \<longleftrightarrow>
             (\<exists>live end_d. strptime (live_date raw) = Inr live
                \<and> strptime (RawCampaignData.end_date raw) = Inr end_d \<and> dt_le end_d live))
       \<and> errs = filter (\<lambda>m. m \<in> set errs)
             [''Product ID is required'', ''Valid selling price is required'',
              ''Live date is required'', ''End date is required'',
              ''End date must be after live date'',
              ''Invalid date format. Expected DD/MM/YYYY'']"
  proof (intro exI conjI)
    show "validate_campaign_data raw = Inr (required_errors raw @ d)" by (rule ret)
    show "''Product ID is required'' \<in> set (required_errors raw @ d)
        \<longleftrightarrow> RawCampaignData.product_id raw = []"
      using mem req by simp
    show "''Valid selling price is required'' \<in> set (required_errors raw @ d)
        \<longleftrightarrow> is_zero (RawCampaignData.selling_price raw)
             \<or> fle (RawCampaignData.selling_price raw) fzero"
      using mem req by simp
    show "''Live date is required'' \<in> set (required_errors raw @ d) \<longleftrightarrow> live_date raw = []"
      using mem req by simp
    show "''End date is required'' \<in> set (required_errors raw @ d)
        \<longleftrightarrow> RawCampaignData.end_date raw = []"
      using mem req by simp
    show "''Invalid date format. Expected DD/MM/YYYY'' \<in> set (required_errors raw @ d) \<longleftrightarrow>
             (\<exists>exn. strptime (live_date raw) = Inl exn)
             \<or> (\<exists>exn. strptime (RawCampaignData.end_date raw) = Inl exn)"
      using mem fmt by simp
    show "''End date must be after live date'' \<in> set (required_errors raw @ d) \<longleftrightarrow>
             (\<exists>live end_d. strptime (live_date raw) = Inr live
                \<and> strptime (RawCampaignData.end_date raw) = Inr end_d \<and> dt_le end_d live)"
      using mem ord by simp
    show "required_errors raw @ d = filter (\<lambda>m. m \<in> set (required_errors raw @ d))
             [''Product ID is required'', ''Valid selling price is required'',
              ''Live date is required'', ''End date is required'',
              ''End date must be after live date'',
              ''Invalid date format. Expected DD/MM/YYYY'']"
      using errors_in_rule_order [OF shape, of raw] by simp
  qed
  have blank: "validate_campaign_data raw =
          Inr [''Product ID is required'', ''Valid selling price is required'',
               ''Live date is required'', ''End date is required'',
               ''Invalid date format. Expected DD/MM/YYYY'']"
    if "RawCampaignData.product_id raw = [] \<and> is_zero (RawCampaignData.selling_price raw)
        \<and> live_date raw = [] \<and> RawCampaignData.end_date raw = []"
    using that by (simp add: validate_campaign_data_def Let_def strptime_empty)
  show ?thesis
  proof (intro conjI impI)
    show "\<exists>errs. validate_campaign_data raw = Inr errs
       \<and> (''Product ID is required'' \<in> set errs \<longleftrightarrow> RawCampaignData.product_id raw = [])
       \<and> (''Valid selling price is required'' \<in> set errs \<longleftrightarrow>
             is_zero (RawCampaignData.selling_price raw)
             \<or> fle (RawCampaignData.selling_price raw) fzero)
       \<and> (''Live date is required'' \<in> set errs \<longleftrightarrow> live_date raw = [])
       \<and> (''End date is required'' \<in> set errs \<longleftrightarrow> RawCampaignData.end_date raw = [])
       \<and> (''Invalid date format. Expected DD/MM/YYYY'' \<in> set errs \<longleftrightarrow>
             (\<exists>exn. strptime (live_date raw) = Inl exn)
             \<or> (\<exists>exn. strptime (RawCampaignData.end_date raw) = Inl exn))
       \<and> (''End date must be after live date'' \<in> set errs \<longleftrightarrow>
             (\<exists>live end_d. strptime (live_date raw) = Inr live
                \<and> strptime (RawCampaignData.end_date raw) = Inr end_d \<and> dt_le end_d live))
       \<and> errs = filter (\<lambda>m. m \<in> set errs)
             [''Product ID is required'', ''Valid selling price is required'',
              ''Live date is required'', ''End date is required'',
              ''End date must be after live date'',
              ''Invalid date format. Expected DD/MM/YYYY'']"
      by (rule general)
  next
    assume "RawCampaignData.product_id raw = [] \<and> is_zero (RawCampaignData.selling_price raw)
        \<and> live_date raw = [] \<and> RawCampaignData.end_date raw = []"
    then show "validate_campaign_data raw =
          Inr [''Product ID is required'', ''Valid selling price is required'',
               ''Live date is required'', ''End date is required'',
               ''Invalid date format. Expected DD/MM/YYYY'']"
      by (rule blank)
  next
    show "3 \<le> length [''Product ID is required'', ''Valid selling price is required'',
               ''Live date is required'', ''End date is required'',
               ''Invalid date format. Expected DD/MM/YYYY'']"
      by simp
  qed
qed


theorem validate_collects_all_witness:
  "validate_campaign_data empty_raw =
          Inr [''Product ID is required'', ''Valid selling price is required'',
               ''Live date is required'', ''End date is required'',
               ''Invalid date format. Expected DD/MM/YYYY'']
   \<and> validate_campaign_data misordered_raw = Inr [''End date must be after live date'']
   \<and> validate_campaign_data scenario_raw = Inr []"
proof -
  have blank: "RawCampaignData.product_id empty_raw = []
      \<and> is_zero (RawCampaignData.selling_price empty_raw)
      \<and> live_date empty_raw = [] \<and> RawCampaignData.end_date empty_raw = []"
    by (simp add: empty_raw_def is_zero_def fzero_def)
  from validate_collects_all [of empty_raw] blank
  have c1: "validate_campaign_data empty_raw =
          Inr [''Product ID is required'', ''Valid selling price is required'',
               ''Live date is required'', ''End date is required'',
               ''Invalid date format. Expected DD/MM/YYYY'']"
    by blast
  have fields: "RawCampaignData.product_id misordered_raw = ''P1''"
    "RawCampaignData.selling_price misordered_raw = Finite 7036874417766400 (- 46)"
    "live_date misordered_raw = ''20/01/2025''"
    "RawCampaignData.end_date misordered_raw = ''19/01/2025''"
    by (simp_all add: misordered_raw_def scenario_raw_def round_100)
  from validate_collects_all [of misordered_raw] obtain errs where
    ret: "validate_campaign_data misordered_raw = Inr errs"
    and i1: "''Product ID is required'' \<in> set errs
       \<longleftrightarrow> RawCampaignData.product_id misordered_raw = []"
    and i2: "''Valid selling price is required'' \<in> set errs \<longleftrightarrow>
             is_zero (RawCampaignData.selling_price misordered_raw)
             \<or> fle (RawCampaignData.selling_price misordered_raw) fzero"
    and i3: "''Live date is required'' \<in> set errs \<longleftrightarrow> live_date misordered_raw = []"
    and i4: "''End date is required'' \<in> set errs
       \<longleftrightarrow> RawCampaignData.end_date misordered_raw = []"
    and i5: "''Invalid date format. Expected DD/MM/YYYY'' \<in> set errs \<longleftrightarrow>
             (\<exists>exn. strptime (live_date misordered_raw) = Inl exn)
             \<or> (\<exists>exn. strptime (RawCampaignData.end_date misordered_raw) = Inl exn)"
    and i6: "''End date must be after live date'' \<in> set errs \<longleftrightarrow>
             (\<exists>live end_d. strptime (live_date misordered_raw) = Inr live
                \<and> strptime (RawCampaignData.end_date misordered_raw) = Inr end_d
                \<and> dt_le end_d live)"
    and ord: "errs = filter (\<lambda>m. m \<in> set errs)
             [''Product ID is required'', ''Valid selling price is required'',
              ''Live date is required'', ''End date is required'',
              ''End date must be after live date'',
              ''Invalid date format. Expected DD/MM/YYYY'']"
    by blast
  have "filter (\<lambda>m. m \<in> set errs)
             [''Product ID is required'', ''Valid selling price is required'',
              ''Live date is required'', ''End date is required'',
              ''End date must be after live date'',
              ''Invalid date format. Expected DD/MM/YYYY'']
        = [''End date must be after live date'']"
    unfolding filter.simps i1 i2 i3 i4 i5 i6 fields
    by (simp add: strptime_20_01 strptime_19_01 dt_le_def dt_less_def dt_fields_def
        price_100_valid)
  with ord ret have c2:
    "validate_campaign_data misordered_raw = Inr [''End date must be after live date'']"
    by simp
  have fields': "RawCampaignData.product_id scenario_raw = ''P1''"
    "RawCampaignData.selling_price scenario_raw = Finite 7036874417766400 (- 46)"
    "live_date scenario_raw = ''01/06/2025''"
    "RawCampaignData.end_date scenario_raw = ''30/06/2025''"
    by (simp_all add: scenario_raw_def round_100)
  from validate_collects_all [of scenario_raw] obtain errs' where
    ret': "validate_campaign_data scenario_raw = Inr errs'"
    and j1: "''Product ID is required'' \<in> set errs'
       \<longleftrightarrow> RawCampaignData.product_id scenario_raw = []"
    and j2: "''Valid selling price is required'' \<in> set errs' \<longleftrightarrow>
             is_zero (RawCampaignData.selling_price scenario_raw)
             \<or> fle (RawCampaignData.selling_price scenario_raw) fzero"
    and j3: "''Live date is required'' \<in> set errs' \<longleftrightarrow> live_date scenario_raw = []"
    and j4: "''End date is required'' \<in> set errs'
       \<longleftrightarrow> RawCampaignData.end_date scenario_raw = []"
    and j5: "''Invalid date format. Expected DD/MM/YYYY'' \<in> set errs' \<longleftrightarrow>
             (\<exists>exn. strptime (live_date scenario_raw) = Inl exn)
             \<or> (\<exists>exn. strptime (RawCampaignData.end_date scenario_raw) = Inl exn)"
    and j6: "''End date must be after live date'' \<in> set errs' \<longleftrightarrow>
             (\<exists>live end_d. strptime (live_date scenario_raw) = Inr live
                \<and> strptime (RawCampaignData.end_date scenario_raw) = Inr end_d
                \<and> dt_le end_d live)"
    and ord': "errs' = filter (\<lambda>m. m \<in> set errs')
             [''Product ID is required'', ''Valid selling price is required'',
              ''Live date is required'', ''End date is required'',
              ''End date must be after live date'',
              ''Invalid date format. Expected DD/MM/YYYY'']"
    by blast
  have "filter (\<lambda>m. m \<in> set errs')
             [''Product ID is required'', ''Valid selling price is required'',
              ''Live date is required'', ''End date is required'',
              ''End date must be after live date'',
              ''Invalid date format. Expected DD/MM/YYYY'']
        = []"
    unfolding filter.simps j1 j2 j3 j4 j5 j6 fields'
    by (simp add: strptime_01_06 strptime_30_06 dt_le_def dt_less_def dt_fields_def
        price_100_valid)
  with ord' ret' have c3: "validate_campaign_data scenario_raw = Inr []"
    by simp
  from c1 c2 c3 show ?thesis by blast
qed

section \<open>The summary aggregator\<close>

text \<open>
  C9. The summary of the empty list is the dictionary with the single item
  \<^verbatim>\<open>total_campaigns: 0\<close>; no other key is present.
\<close>

theorem summary_of_nothing:
  "get_campaign_summary fsum [] = Inr [(''total_campaigns'', SInt 0)]
   \<and> map fst [(''total_campaigns'', SInt 0)] = [''total_campaigns'']"
  by (simp add: get_campaign_summary_def)


theorem summary_of_nothing_witness:
  "get_campaign_summary (\<lambda>xs. fzero) [] = Inr [(''total_campaigns'', SInt 0)]
   \<and> map fst [(''total_campaigns'', SInt 0) :: string \<times> summary_value] = [''total_campaigns'']"
  using summary_of_nothing [of "\<lambda>xs. fzero"] by simp

text \<open>
  The averages divide by the length of the list, converted to a float: this succeeds
  for every length a list can have (below \<open>2 ^ 63\<close>).
\<close>

lemma bitlen_one: "bitlen 1 = 1"
  by (simp add: compute_bitlen)

lemma ilog2_ratio_int:
  assumes pos: "0 < n"
  shows "ilog2_ratio n 1 = bitlen n - 1"
proof -
  have "1 \<le> bitlen n"
    using pos bitlen_eq_zero_iff [of n] bitlen_nonneg [of n] by linarith
  moreover have "2 ^ nat (bitlen n - 1) \<le> n"
    using bitlen_bounds [OF pos] by simp
  ultimately show ?thesis
    by (simp add: ilog2_ratio_def bitlen_one Let_def)
qed

lemma nearest_even_ge: "0 < d \<Longrightarrow> n div d \<le> nearest_even n d"
  by (simp add: nearest_even_def Let_def)

lemma pack_finite:
  assumes "1 \<le> m" and "e \<le> 970"
  shows "\<exists>m' e'. pack True m e = Finite m' e' \<and> m' \<noteq> 0"
  using assms by (simp add: pack_def Let_def)

lemma round_ratio_int_finite:
  assumes pos: "0 < n" and small: "n < 2 ^ 63"
  shows "\<exists>m e. round_ratio n 1 = Finite m e \<and> m \<noteq> 0"
proof -
  define k where "k = bitlen n - 1"
  have lo: "2 ^ nat k \<le> n"
    using bitlen_bounds [OF pos] by (simp add: k_def)
  have "bitlen n \<le> 63"
    using small pos by (simp add: bitlen_le_iff_power)
  then have k62: "k \<le> 62" by (simp add: k_def)
  have "1 \<le> bitlen n"
    using pos bitlen_eq_zero_iff [of n] bitlen_nonneg [of n] by linarith
  then have k0: "0 \<le> k" by (simp add: k_def)
  define e where "e = max (k - 52) (- 1074)"
  have e_eq: "e = k - 52" using k0 by (simp add: e_def)
  define m where "m = (if e < 0 then nearest_even (n * 2 ^ nat (- e)) 1
                 else nearest_even n (1 * 2 ^ nat e))"
  have il: "ilog2_ratio n 1 = k"
    by (simp add: ilog2_ratio_int [OF pos] k_def)
  have neg: "(k < 52) = (e < 0)" by (simp add: e_eq)
  have rr: "round_ratio n 1 = pack True m e"
    using pos by (simp add: round_ratio_def Let_def il e_def [symmetric] m_def neg)
  have "1 \<le> m"
  proof (cases "e < 0")
    case True
    have "(1::int) \<le> 2 ^ nat (- e)" by simp
    then have "1 * 1 \<le> n * 2 ^ nat (- e)"
      using pos by (intro mult_mono) auto
    moreover have "n * 2 ^ nat (- e) div 1 \<le> nearest_even (n * 2 ^ nat (- e)) 1"
      by (rule nearest_even_ge) simp
    ultimately show ?thesis using True by (simp add: m_def)
  next
    case False
    then have "nat e \<le> nat k" by (simp add: e_eq)
    then have "(2::int) ^ nat e \<le> 2 ^ nat k" by (simp add: power_increasing)
    with lo have "2 ^ nat e \<le> n" by linarith
    then have "0 < n div 2 ^ nat e"
      using pos_imp_zdiv_pos_iff [of "2 ^ nat e" n] by simp
    moreover have "n div (1 * 2 ^ nat e) \<le> nearest_even n (1 * 2 ^ nat e)"
      by (rule nearest_even_ge) simp
    ultimately show ?thesis using False by (simp add: m_def)
  qed
  moreover have "e \<le> 970" using k62 by (simp add: e_eq)
  ultimately show ?thesis
    using pack_finite [of m e] rr by simp
qed

lemma fdiv_int_ok:
  assumes "0 < n" and "n < 2 ^ 63"
  shows "\<exists>y. fdiv_int x n = Inr y"
proof -
  from round_ratio_int_finite [OF assms] obtain m e where
    r: "round_ratio n 1 = Finite m e" and m: "m \<noteq> 0"
    by blast
  then show ?thesis
    by (cases x) (simp_all add: fdiv_int_def Let_def)
qed


lemma sum_type_counts:
  "(\<Sum>t\<in>set ts. int (count_list ts t)) = int (length ts)"
proof -
  have "sum (count_list ts) (set ts) = length ts"
    by (rule sum_count_set) simp_all
  then have "int (sum (count_list ts) (set ts)) = int (length ts)" by simp
  then show ?thesis by simp
qed

text \<open>
  C10. For a non-empty list of processed campaigns (its length below \<open>2 ^ 63\<close>, as that
  of every Python list) the summary is returned; its \<^verbatim>\<open>campaign_type_counts\<close> has
  exactly the issue types of the input as keys, and its counts add up to
  \<^verbatim>\<open>total_campaigns\<close>, the length of the list.
\<close>

theorem summary_type_counts:
  assumes nonempty: "cs \<noteq> []" and len: "length cs < 2 ^ 63"
  shows "\<exists>d counts. get_campaign_summary fsum cs = Inr d
       \<and> map_of d ''total_campaigns'' = Some (SInt (int (length cs)))
       \<and> map_of d ''campaign_type_counts'' = Some (SCounts counts)
       \<and> dom counts = set (map (\<lambda>c. issue_type (raw_data c)) cs)
       \<and> (\<Sum>t\<in>dom counts. the (counts t)) = int (length cs)"
proof -
  let ?types = "map (\<lambda>c. issue_type (raw_data c)) cs"
  let ?counts = "\<lambda>t. if t \<in> set ?types then Some (int (count_list ?types t)) else None"
  have n: "0 < int (length cs)" "int (length cs) < 2 ^ 63"
    using nonempty len by simp_all
  obtain avg_sp where sp:
    "fdiv_int (fsum (map (\<lambda>c. FalconFormattedData.selling_price (falcon_data c)) cs))
       (int (length cs)) = Inr avg_sp"
    using fdiv_int_ok [OF n] by blast
  obtain avg_mrp where mrp:
    "fdiv_int (fsum (map (\<lambda>c. FalconFormattedData.MRP (falcon_data c)) cs))
       (int (length cs)) = Inr avg_mrp"
    using fdiv_int_ok [OF n] by blast
  let ?sps = "map (\<lambda>c. FalconFormattedData.selling_price (falcon_data c)) cs"
  let ?d = "[(''total_campaigns'', SInt (int (length cs))),
             (''campaign_types'', STypes (set ?types)),
             (''avg_selling_price'', SFloat avg_sp),
             (''min_selling_price'', SFloat (py_min (hd ?sps) (tl ?sps))),
             (''max_selling_price'', SFloat (py_max (hd ?sps) (tl ?sps))),
             (''avg_mrp'', SFloat avg_mrp),
             (''total_potential_revenue'', SFloat (fsum ?sps)),
             (''campaign_type_counts'', SCounts ?counts)]"
  have ret: "get_campaign_summary fsum cs = Inr ?d"
    using nonempty sp mrp by (simp add: get_campaign_summary_def Let_def)
  have total: "map_of ?d ''total_campaigns'' = Some (SInt (int (length cs)))"
    by simp
  have counts: "map_of ?d ''campaign_type_counts'' = Some (SCounts ?counts)"
    by simp
  have dom: "dom ?counts = set ?types"
    by (auto simp: dom_def)
  have "(\<Sum>t\<in>set ?types. the (?counts t)) = (\<Sum>t\<in>set ?types. int (count_list ?types t))"
    by (rule sum.cong) simp_all
  also have "\<dots> = int (length ?types)"
    by (rule sum_type_counts)
  finally have "(\<Sum>t\<in>dom ?counts. the (?counts t)) = int (length cs)"
    by (simp only: dom length_map)
  with ret total counts dom show ?thesis
    by blast
qed

theorem summary_type_counts_witness:
  "[processed_dod, processed_flash, processed_dod] \<noteq> []
   \<and> length [processed_dod, processed_flash, processed_dod] < 2 ^ 63
   \<and> (\<exists>d counts. get_campaign_summary (\<lambda>xs. fzero) [processed_dod, processed_flash, processed_dod]
         = Inr d
       \<and> map_of d ''total_campaigns'' = Some (SInt 3)
       \<and> map_of d ''campaign_type_counts'' = Some (SCounts counts)
       \<and> dom counts = {''DOD'', ''FLASH_SALE''}
       \<and> (\<Sum>t\<in>dom counts. the (counts t)) = 3)"
proof -
  have a: "[processed_dod, processed_flash, processed_dod] \<noteq> []" by simp
  have b: "length [processed_dod, processed_flash, processed_dod] < 2 ^ 63" by simp
  have c: "set (map (\<lambda>c. issue_type (raw_data c)) [processed_dod, processed_flash, processed_dod])
      = {''DOD'', ''FLASH_SALE''}"
    by (auto simp: processed_dod_def processed_flash_def scenario_raw_def)
  from summary_type_counts [OF a b, of "\<lambda>xs. fzero"] a b c show ?thesis
    by simp
qed

end
